theory Spec2Isabelle
  imports Main "HOL-Library.Log_Nat"
begin

section \<open>JavaScript values used by the handlers\<close>

text \<open>
  A JavaScript string is a sequence of UTF-16 code units; \<open>js\<close> embeds an ASCII
  literal of the source. Template literals become concatenations.
\<close>

type_synonym jsstring = "nat list"

definition js :: "string \<Rightarrow> jsstring" where
  "js s = map of_char s"

text \<open>
  \<open>String.prototype.trim\<close> strips the code units of ECMAScript's WhiteSpace and
  LineTerminator productions from both ends.
\<close>

definition isWhiteSpace :: "nat \<Rightarrow> bool" where
  "isWhiteSpace c \<longleftrightarrow>
     c \<in> {0x09, 0x0A, 0x0B, 0x0C, 0x0D, 0x20, 0xA0, 0x1680, 0x2028, 0x2029,
          0x202F, 0x205F, 0x3000, 0xFEFF} \<or> (0x2000 \<le> c \<and> c \<le> 0x200A)"

definition trim :: "jsstring \<Rightarrow> jsstring" where
  "trim s = rev (dropWhile isWhiteSpace (rev (dropWhile isWhiteSpace s)))"

text \<open>Decimal rendering of an array length inside a template literal.\<close>

fun digits :: "nat \<Rightarrow> jsstring" where
  "digits n = (if n < 10 then [48 + n] else digits (n div 10) @ [48 + n mod 10])"

declare digits.simps [simp del]

text \<open>
  A property of a request payload is absent (\<open>undefined\<close>), \<open>null\<close>, or a value.
\<close>

datatype 'a jsfield = Undefined | Null | Val 'a

subsection \<open>Numbers\<close>

text \<open>
  A JavaScript number is an IEEE 754 binary64 value. The finite ones are rationals, and
  every arithmetic operator returns the exact result rounded to the nearest
  representable value, ties to the even significand. \<open>fl64\<close> is that rounding for
  53-bit significands; the amounts and counts of this service stay far inside the normal
  range, so overflow and gradual underflow are not modelled.
\<close>

definition ilog2 :: "rat \<Rightarrow> int" where
  "ilog2 x = (if 1 \<le> x then bitlen \<lfloor>x\<rfloor> - 1 else - bitlen (\<lceil>1 / x\<rceil> - 1))"

definition round_half_even :: "rat \<Rightarrow> int" where
  "round_half_even y =
     (let f = \<lfloor>y\<rfloor>; r = y - of_int f
      in if r < 1 / 2 then f else if 1 / 2 < r then f + 1 else if even f then f else f + 1)"

definition fl64 :: "rat \<Rightarrow> rat" where
  "fl64 x =
     (if x = 0 then 0
      else let a = \<bar>x\<bar>; u = 2 powi (ilog2 a - 52)
           in sgn x * of_int (round_half_even (a / u)) * u)"

definition js_plus :: "rat \<Rightarrow> rat \<Rightarrow> rat" where
  "js_plus a b = fl64 (a + b)"

definition js_minus :: "rat \<Rightarrow> rat \<Rightarrow> rat" where
  "js_minus a b = fl64 (a - b)"

definition js_times :: "rat \<Rightarrow> rat \<Rightarrow> rat" where
  "js_times a b = fl64 (a * b)"

definition js_divide :: "rat \<Rightarrow> rat \<Rightarrow> rat" where
  "js_divide a b = fl64 (a / b)"

text \<open>\<open>Math.round\<close>: the nearest integer, a tie going towards \<open>+\<infinity>\<close>.\<close>

definition Math_round :: "rat \<Rightarrow> int" where
  "Math_round x = \<lfloor>x + 1 / 2\<rfloor>"

text \<open>\<open>ToNumber\<close> of a nullable column: \<open>null\<close> counts as \<open>0\<close> in arithmetic.\<close>

definition ToNumber :: "rat option \<Rightarrow> rat" where
  "ToNumber v = (case v of None \<Rightarrow> 0 | Some x \<Rightarrow> x)"

text \<open>\<open>v || 0\<close> on a number-valued property.\<close>

definition or_zero :: "rat jsfield \<Rightarrow> rat" where
  "or_zero v = (case v of Val x \<Rightarrow> x | _ \<Rightarrow> 0)"

subsection \<open>Dates\<close>

text \<open>The clock and the time zone of the server process.\<close>

record env =
  now :: int
  tzOffset :: int

definition msPerDay :: int where
  "msPerDay = 86400000"

text \<open>
  \<open>new Date(s)\<close> for a date-only string \<open>YYYY-MM-DD\<close>: ECMAScript reads the
  date-only form as UTC, so the time value is midnight UTC of that day.
\<close>

definition new_Date :: "int \<Rightarrow> int" where
  "new_Date day = day * msPerDay"

text \<open>
  \<open>const today = new Date(); today.setHours(0, 0, 0, 0)\<close>: midnight of the current
  day in the local time zone, as a time value. \<open>tzOffset\<close> is the local offset from
  UTC in minutes, positive to the east, taken as constant over the day.
\<close>

definition today_midnight :: "env \<Rightarrow> int" where
  "today_midnight e =
     (let local = now e + tzOffset e * 60000
      in (local div msPerDay) * msPerDay - tzOffset e * 60000)"

section \<open>Data model\<close>

text \<open>
  The rows of the two entities, with the columns the handlers read or write. A
  nullable column is an \<open>option\<close>. Calendar dates (CDS \<open>Date\<close>, the string
  \<open>YYYY-MM-DD\<close>) are day numbers since 1970-01-01; timestamps are milliseconds since
  the epoch. The virtual elements are \<open>None\<close> until the read handler fills them.
\<close>

datatype task_status = TODO | IN_PROGRESS | IN_REVIEW | DONE | BLOCKED

record Project =
  ID :: jsstring
  name :: jsstring
  budget :: "rat option"
  actualCost :: "rat option"
  startDate :: "int option"
  endDate :: "int option"
  completionRate :: "int option"
  remainingBudget :: "rat option"

record Task =
  ID :: jsstring
  title :: jsstring
  status :: task_status
  dueDate :: "int option"
  completedAt :: "int option"
  assignedTo :: "jsstring option"
  project_ID :: "jsstring option"
  isOverdue :: "bool option"

record db =
  Projects :: "Project list"
  Tasks :: "Task list"

subsection \<open>The query interface\<close>

text \<open>\<open>SELECT.one.from(Projects).where({ ID: id })\<close>\<close>

definition SELECT_one_Project :: "db \<Rightarrow> jsstring \<Rightarrow> Project option" where
  "SELECT_one_Project d pid = find (\<lambda>p. Project.ID p = pid) (Projects d)"

text \<open>\<open>SELECT.one.from(Tasks).where({ ID: id })\<close>\<close>

definition SELECT_one_Task :: "db \<Rightarrow> jsstring \<Rightarrow> Task option" where
  "SELECT_one_Task d tid = find (\<lambda>t. Task.ID t = tid) (Tasks d)"

text \<open>\<open>SELECT.from(Tasks).where({ project_ID: id })\<close>\<close>

definition SELECT_Tasks_of :: "db \<Rightarrow> jsstring \<Rightarrow> Task list" where
  "SELECT_Tasks_of d pid = filter (\<lambda>t. Task.project_ID t = Some pid) (Tasks d)"

text \<open>\<open>UPDATE(Tasks).set(...).where({ ID: id })\<close>, the assignment given as a function.\<close>

definition UPDATE_Tasks :: "db \<Rightarrow> jsstring \<Rightarrow> (Task \<Rightarrow> Task) \<Rightarrow> db" where
  "UPDATE_Tasks d tid f = d\<lparr>Tasks := map (\<lambda>t. if Task.ID t = tid then f t else t) (Tasks d)\<rparr>"

text \<open>\<open>UPDATE(Projects).set(...).where({ ID: id })\<close>\<close>

definition UPDATE_Projects :: "db \<Rightarrow> jsstring \<Rightarrow> (Project \<Rightarrow> Project) \<Rightarrow> db" where
  "UPDATE_Projects d pid f =
     d\<lparr>Projects := map (\<lambda>p. if Project.ID p = pid then f p else p) (Projects d)\<rparr>"

section \<open>The request context\<close>

text \<open>
  \<open>req.error(code, text)\<close> registers a blocking error and \<open>req.warn(text)\<close> a
  warning; neither ends the handler. A handler that uses them returns the messages it
  registered, in order.
\<close>

datatype req_msg = req_error nat jsstring | req_warn jsstring

fun errors_of :: "req_msg list \<Rightarrow> (nat \<times> jsstring) list" where
  "errors_of [] = []"
| "errors_of (req_error c t # ms) = (c, t) # errors_of ms"
| "errors_of (req_warn t # ms) = errors_of ms"

fun warnings_of :: "req_msg list \<Rightarrow> jsstring list" where
  "warnings_of [] = []"
| "warnings_of (req_error c t # ms) = warnings_of ms"
| "warnings_of (req_warn t # ms) = t # warnings_of ms"

datatype 'a response = Rejected "(nat \<times> jsstring) list" | Succeeded "jsstring list" 'a

text \<open>
  Modelled from the spec: the dispatch of the surrounding protocol layer, which is not
  part of the handler file. An error registered on the request aborts it and is returned
  to the caller with its status code in place of any payload; warnings are attached to
  the successful response.
\<close>

definition respond :: "req_msg list \<Rightarrow> 'a \<Rightarrow> 'a response" where
  "respond ms v = (if errors_of ms = [] then Succeeded (warnings_of ms) v else Rejected (errors_of ms))"

text \<open>
  Modelled from the spec: a CREATE, UPDATE or DELETE request. The before handler runs
  first; the generic write \<open>w\<close> of the persistence layer is committed only if no error
  was registered.
\<close>

definition run_write :: "req_msg list \<Rightarrow> (db \<Rightarrow> db) \<Rightarrow> db \<Rightarrow> unit response \<times> db" where
  "run_write ms w d = (respond ms (), if errors_of ms = [] then w d else d)"

section \<open>Before handlers\<close>

text \<open>The payload \<open>req.data\<close> of a write to Projects, with the properties the handler reads.\<close>

record Projects_data =
  startDate :: "int jsfield"
  endDate :: "int jsfield"
  budget :: "rat jsfield"
  actualCost :: "rat jsfield"

text \<open>
  \<open>this.before(['CREATE', 'UPDATE'], Projects, ...)\<close>. The store is in scope of the
  handler (the ambient \<open>SELECT\<close>), so it is a parameter here. In the last check the
  two operands of \<open>&&\<close> are tested for truthiness: a property that is absent,
  \<open>null\<close> or \<open>0\<close> is falsy.
\<close>

definition before_write_Projects :: "db \<Rightarrow> Projects_data \<Rightarrow> req_msg list" where
  "before_write_Projects d project =
     (case (Projects_data.startDate project, Projects_data.endDate project) of
        (Val start, Val end) \<Rightarrow>
          if new_Date end < new_Date start
          then [req_error 400 (js ''End date must be after start date'')] else []
      | _ \<Rightarrow> [])
     @ (case Projects_data.budget project of
          Val b \<Rightarrow> if b < 0 then [req_error 400 (js ''Budget cannot be negative'')] else []
        | _ \<Rightarrow> [])
     @ (case Projects_data.actualCost project of
          Val c \<Rightarrow> if c < 0 then [req_error 400 (js ''Actual cost cannot be negative'')] else []
        | _ \<Rightarrow> [])
     @ (case (Projects_data.budget project, Projects_data.actualCost project) of
          (Val b, Val c) \<Rightarrow>
            if b \<noteq> 0 \<and> c \<noteq> 0 \<and> b < c
            then [req_warn (js ''Actual cost exceeds budget'')] else []
        | _ \<Rightarrow> [])"

text \<open>The payload of a write to Tasks.\<close>

record Tasks_data =
  estimatedHours :: "rat jsfield"
  actualHours :: "rat jsfield"
  project_ID :: "jsstring jsfield"

text \<open>\<open>this.before(['CREATE', 'UPDATE'], Tasks, ...)\<close>\<close>

definition before_write_Tasks :: "db \<Rightarrow> Tasks_data \<Rightarrow> req_msg list" where
  "before_write_Tasks d task =
     (case estimatedHours task of
        Val h \<Rightarrow> if h < 0 then [req_error 400 (js ''Estimated hours cannot be negative'')] else []
      | _ \<Rightarrow> [])
     @ (case actualHours task of
          Val h \<Rightarrow> if h < 0 then [req_error 400 (js ''Actual hours cannot be negative'')] else []
        | _ \<Rightarrow> [])
     @ (case Tasks_data.project_ID task of
          Val pid \<Rightarrow>
            if pid = [] then []
            else (case SELECT_one_Project d pid of
                    None \<Rightarrow> [req_error 404 (js ''Project with ID '' @ pid @ js '' not found'')]
                  | Some p \<Rightarrow> [])
        | _ \<Rightarrow> [])"

text \<open>
  \<open>this.before('DELETE', Projects, ...)\<close>; \<open>activeTasks\<close> is
  \<open>SELECT.from(Tasks).where({ project_ID: projectID, status: { '!=': 'DONE' } })\<close>.
\<close>

definition activeTasks :: "db \<Rightarrow> jsstring \<Rightarrow> Task list" where
  "activeTasks d projectID =
     filter (\<lambda>t. Task.project_ID t = Some projectID \<and> status t \<noteq> DONE) (Tasks d)"

definition before_DELETE_Projects :: "db \<Rightarrow> jsstring \<Rightarrow> req_msg list" where
  "before_DELETE_Projects d projectID =
     (if length (activeTasks d projectID) > 0
      then [req_error 400
              (js ''Cannot delete project with '' @ digits (length (activeTasks d projectID))
               @ js '' active task(s). Complete or reassign them first.'')]
      else [])"

section \<open>After handlers\<close>

text \<open>
  The result of a READ is one row (possibly none) or an array of rows;
  \<open>Array.isArray(x) ? x : [x]\<close> and \<open>if (!row) continue\<close> treat both alike.
\<close>

datatype 'a read_result = One "'a option" | Many "'a list"

fun map_result :: "('a \<Rightarrow> 'a) \<Rightarrow> 'a read_result \<Rightarrow> 'a read_result" where
  "map_result f (One None) = One None"
| "map_result f (One (Some r)) = One (Some (f r))"
| "map_result f (Many rs) = Many (map f rs)"

fun rows_of :: "'a read_result \<Rightarrow> 'a list" where
  "rows_of (One None) = []"
| "rows_of (One (Some r)) = [r]"
| "rows_of (Many rs) = rs"

text \<open>\<open>tasks.filter((t) => t.status === 'DONE').length\<close>\<close>

definition count_DONE :: "Task list \<Rightarrow> nat" where
  "count_DONE tasks = length (filter (\<lambda>t. status t = DONE) tasks)"

text \<open>\<open>totalTasks > 0 ? Math.round((completedTasks / totalTasks) * 100) : 0\<close>\<close>

definition rate :: "nat \<Rightarrow> nat \<Rightarrow> int" where
  "rate completedTasks totalTasks =
     (if totalTasks > 0
      then Math_round (js_times (js_divide (of_nat completedTasks) (of_nat totalTasks)) 100)
      else 0)"

text \<open>The body of the loop in \<open>this.after('READ', Projects, ...)\<close>.\<close>

definition derive_Project :: "db \<Rightarrow> Project \<Rightarrow> Project" where
  "derive_Project d project =
     (let tasks = SELECT_Tasks_of d (Project.ID project);
          totalTasks = length tasks;
          completedTasks = count_DONE tasks
      in project
           \<lparr>completionRate := Some (rate completedTasks totalTasks),
            remainingBudget :=
              (case Project.budget project of
                 None \<Rightarrow> None
               | Some b \<Rightarrow>
                   if b = 0 then None
                   else Some (js_minus b
                                (case Project.actualCost project of
                                   None \<Rightarrow> 0 | Some c \<Rightarrow> c)))\<rparr>)"

definition after_READ_Projects :: "db \<Rightarrow> Project read_result \<Rightarrow> Project read_result" where
  "after_READ_Projects d projects = map_result (derive_Project d) projects"

text \<open>The body of the loop in \<open>this.after('READ', Tasks, ...)\<close>.\<close>

definition derive_Task :: "env \<Rightarrow> Task \<Rightarrow> Task" where
  "derive_Task e task =
     task\<lparr>isOverdue :=
            Some (case dueDate task of
                    Some day \<Rightarrow>
                      if status task \<noteq> DONE then new_Date day < today_midnight e else False
                  | None \<Rightarrow> False)\<rparr>"

definition after_READ_Tasks :: "env \<Rightarrow> Task read_result \<Rightarrow> Task read_result" where
  "after_READ_Tasks e tasks = map_result (derive_Task e) tasks"

section \<open>Custom actions\<close>

record action_result =
  success :: bool
  message :: jsstring

text \<open>Handler of \<open>completeTask\<close>: the payload returned and the store afterwards.\<close>

definition completeTask :: "env \<Rightarrow> db \<Rightarrow> jsstring \<Rightarrow> action_result \<times> db" where
  "completeTask e d taskID =
     (case SELECT_one_Task d taskID of
        None \<Rightarrow>
          (\<lparr>success = False, message = js ''Task with ID '' @ taskID @ js '' not found''\<rparr>, d)
      | Some task \<Rightarrow>
          if status task = DONE then
            (\<lparr>success = False, message = js ''Task is already completed''\<rparr>, d)
          else
            (\<lparr>success = True,
              message = js ''Task \"'' @ title task @ js ''\" marked as completed''\<rparr>,
             UPDATE_Tasks d taskID (\<lambda>t. t\<lparr>status := DONE, completedAt := Some (now e)\<rparr>)))"

text \<open>
  Handler of \<open>assignTask\<close>. The parameter \<open>assignedTo\<close> is \<open>None\<close> when it is
  \<open>undefined\<close> or \<open>null\<close>; \<open>!assignedTo\<close> also holds for the empty string.
\<close>

definition assignTask :: "db \<Rightarrow> jsstring \<Rightarrow> jsstring option \<Rightarrow> action_result \<times> db" where
  "assignTask d taskID assignedTo' =
     (case assignedTo' of
        None \<Rightarrow> (\<lparr>success = False, message = js ''Assignee name cannot be empty''\<rparr>, d)
      | Some a \<Rightarrow>
          if a = [] \<or> trim a = [] then
            (\<lparr>success = False, message = js ''Assignee name cannot be empty''\<rparr>, d)
          else
            (case SELECT_one_Task d taskID of
               None \<Rightarrow>
                 (\<lparr>success = False,
                   message = js ''Task with ID '' @ taskID @ js '' not found''\<rparr>, d)
             | Some task \<Rightarrow>
                 (\<lparr>success = True,
                   message = js ''Task \"'' @ title task @ js ''\" assigned to '' @ a\<rparr>,
                  UPDATE_Tasks d taskID
                    (\<lambda>t. t\<lparr>assignedTo := Some a,
                            status := (if status task = TODO then IN_PROGRESS else status task)\<rparr>))))"

text \<open>Handler of \<open>updateProjectBudget\<close>.\<close>

record budget_result = action_result +
  remainingBudget :: rat

definition updateProjectBudget ::
  "db \<Rightarrow> jsstring \<Rightarrow> rat jsfield \<Rightarrow> rat jsfield \<Rightarrow> budget_result \<times> db" where
  "updateProjectBudget d projectID newBudget additionalCost =
     (case SELECT_one_Project d projectID of
        None \<Rightarrow>
          (\<lparr>success = False,
            message = js ''Project with ID '' @ projectID @ js '' not found'',
            remainingBudget = 0\<rparr>, d)
      | Some project \<Rightarrow>
          if (case newBudget of Val b \<Rightarrow> b < 0 | _ \<Rightarrow> False) then
            (\<lparr>success = False,
              message = js ''Budget cannot be negative'',
              remainingBudget =
                js_minus (ToNumber (Project.budget project))
                         (ToNumber (Project.actualCost project))\<rparr>, d)
          else
            let updatedBudget =
                  (case newBudget of
                     Undefined \<Rightarrow> Project.budget project | Null \<Rightarrow> None | Val b \<Rightarrow> Some b);
                updatedCost = js_plus (ToNumber (Project.actualCost project)) (or_zero additionalCost);
                remaining = js_minus (ToNumber updatedBudget) updatedCost
            in (\<lparr>success = True,
                 message = js ''Budget updated for project \"'' @ name project @ js ''\"'',
                 remainingBudget = remaining\<rparr>,
                UPDATE_Projects d projectID
                  (\<lambda>p. p\<lparr>Project.budget := updatedBudget,
                          Project.actualCost := Some updatedCost\<rparr>)))"

text \<open>Handler of \<open>getProjectStats\<close>: the messages registered and the value returned.\<close>

record stats =
  totalTasks :: nat
  completedTasks :: nat
  completionRate :: int
  overdueTasks :: nat

definition getProjectStats :: "env \<Rightarrow> db \<Rightarrow> jsstring \<Rightarrow> req_msg list \<times> stats" where
  "getProjectStats e d projectID =
     (let msgs = (case SELECT_one_Project d projectID of
                    None \<Rightarrow> [req_error 404 (js ''Project with ID '' @ projectID @ js '' not found'')]
                  | Some project \<Rightarrow> []);
          tasks = SELECT_Tasks_of d projectID;
          total = length tasks;
          completed = count_DONE tasks;
          overdue = length (filter (\<lambda>t.
                       case dueDate t of
                         None \<Rightarrow> False
                       | Some day \<Rightarrow>
                           if status t = DONE then False
                           else new_Date day < today_midnight e) tasks)
      in (msgs,
          \<lparr>totalTasks = total, completedTasks = completed,
           completionRate = rate completed total, overdueTasks = overdue\<rparr>))"

text \<open>The response the caller of \<open>getProjectStats\<close> receives.\<close>

definition call_getProjectStats :: "env \<Rightarrow> db \<Rightarrow> jsstring \<Rightarrow> stats response" where
  "call_getProjectStats e d projectID =
     (case getProjectStats e d projectID of (msgs, r) \<Rightarrow> respond msgs r)"

section \<open>Notions of the specification\<close>

text \<open>
  The calendar day, as a day number, that the clock shows in the local zone: the "today"
  of a date-only comparison.
\<close>

definition local_date :: "env \<Rightarrow> int" where
  "local_date e = (now e + tzOffset e * 60000) div msPerDay"

text \<open>Reading a decimal numeral back, to say that a message shows a count exactly.\<close>

definition decimal_value :: "jsstring \<Rightarrow> nat" where
  "decimal_value s = foldl (\<lambda>a c. 10 * a + (c - 48)) 0 s"

section \<open>Example data\<close>

definition task_report :: Task where
  "task_report = \<lparr>Task.ID = js ''t1'', title = js ''Write report'', status = TODO,
     dueDate = Some 19737, completedAt = None, assignedTo = None,
     project_ID = Some (js ''p1''), isOverdue = None\<rparr>"

definition task_ship :: Task where
  "task_ship = \<lparr>Task.ID = js ''t2'', title = js ''Ship'', status = DONE,
     dueDate = None, completedAt = Some 1705000000000, assignedTo = Some (js ''Bob''),
     project_ID = Some (js ''p1''), isOverdue = None\<rparr>"

definition project_P :: Project where
  "project_P = \<lparr>Project.ID = js ''p1'', name = js ''Apollo'', budget = Some 1000,
     actualCost = Some 0, startDate = Some 19700, endDate = Some 19800,
     completionRate = None, remainingBudget = None\<rparr>"

definition store0 :: db where
  "store0 = \<lparr>Projects = [project_P], Tasks = [task_report, task_ship]\<rparr>"

definition noon_utc :: env where
  "noon_utc = \<lparr>now = 1705320000000, tzOffset = 0\<rparr>"

definition write_reversed_dates :: Projects_data where
  "write_reversed_dates = \<lparr>startDate = Val 19800, endDate = Val 19737,
     budget = Val 1000, actualCost = Undefined\<rparr>"

definition write_same_day :: Projects_data where
  "write_same_day = \<lparr>startDate = Val 19737, endDate = Val 19737,
     budget = Val 1000, actualCost = Val 250\<rparr>"

text \<open>A generic UPDATE of the persistence layer, as committed when no error was registered.\<close>

definition write_end_date :: "db \<Rightarrow> db" where
  "write_end_date d = UPDATE_Projects d (js ''p1'') (\<lambda>p. p\<lparr>Project.endDate := Some 19737\<rparr>)"

text \<open>The generic DELETE of the persistence layer for project \<open>p1\<close>, cascading to its tasks.\<close>

definition delete_p1 :: "db \<Rightarrow> db" where
  "delete_p1 d = \<lparr>Projects = filter (\<lambda>p. Project.ID p \<noteq> js ''p1'') (Projects d),
                  Tasks = filter (\<lambda>t. Task.project_ID t \<noteq> Some (js ''p1'')) (Tasks d)\<rparr>"

definition store_done :: db where
  "store_done = \<lparr>Projects = [project_P], Tasks = [task_ship]\<rparr>"

text \<open>An UPDATE that moves only the end date, to a day before the stored start date.\<close>

definition write_end_only :: Projects_data where
  "write_end_only = \<lparr>startDate = Undefined, endDate = Val 19000,
     budget = Undefined, actualCost = Undefined\<rparr>"

definition write_title_only :: Tasks_data where
  "write_title_only = \<lparr>estimatedHours = Undefined, actualHours = Undefined,
     project_ID = Undefined\<rparr>"

definition empty_store :: db where
  "empty_store = \<lparr>Projects = [], Tasks = []\<rparr>"

text \<open>The UPDATE that \<open>write_end_only\<close> asks for, as the persistence layer commits it.\<close>

definition commit_end_only :: "db \<Rightarrow> db" where
  "commit_end_only d = UPDATE_Projects d (js ''p1'') (\<lambda>p. p\<lparr>Project.endDate := Some 19000\<rparr>)"

text \<open>Project \<open>p1\<close> with twelve tasks in review, numbered 10 to 21, and one done.\<close>

definition task_numbered :: "nat \<Rightarrow> Task" where
  "task_numbered i = \<lparr>Task.ID = js ''n'' @ digits i, title = js ''Review'', status = IN_REVIEW,
     dueDate = None, completedAt = None, assignedTo = None,
     project_ID = Some (js ''p1''), isOverdue = None\<rparr>"

definition store_busy :: db where
  "store_busy = \<lparr>Projects = [project_P], Tasks = task_ship # map task_numbered [10..<22]\<rparr>"

text \<open>A project write with a budget of 0 and an actual cost of 50.\<close>

definition write_zero_budget :: Projects_data where
  "write_zero_budget = \<lparr>startDate = Undefined, endDate = Undefined,
     budget = Val 0, actualCost = Val 50\<rparr>"

text \<open>Noon of 2024-01-15 in a zone five hours west of UTC (17:00 UTC).\<close>

definition noon_utc_minus_5 :: env where
  "noon_utc_minus_5 = \<lparr>now = 1705338000000, tzOffset = - 300\<rparr>"

text \<open>A project with a budget of 0 and 40 tasks, 23 of them done.\<close>

definition project_Q :: Project where
  "project_Q = \<lparr>Project.ID = js ''q'', name = js ''Gemini'', budget = Some 0,
     actualCost = Some 50, startDate = None, endDate = None,
     completionRate = None, remainingBudget = None\<rparr>"

definition task_of_Q :: "task_status \<Rightarrow> Task" where
  "task_of_Q s = \<lparr>Task.ID = js ''tq'', title = js ''Step'', status = s,
     dueDate = None, completedAt = None, assignedTo = None,
     project_ID = Some (js ''q''), isOverdue = None\<rparr>"

definition store_Q :: db where
  "store_Q = \<lparr>Projects = [project_Q],
               Tasks = replicate 23 (task_of_Q DONE) @ replicate 17 (task_of_Q IN_PROGRESS)\<rparr>"

text \<open>A project without a budget and without tasks.\<close>

definition project_R :: Project where
  "project_R = \<lparr>Project.ID = js ''r'', name = js ''Mercury'', budget = None,
     actualCost = Some 0, startDate = None, endDate = None,
     completionRate = None, remainingBudget = None\<rparr>"

section \<open>Properties\<close>

lemma find_map_upd_same:
  assumes "\<And>t. k (f t) = k t"
  shows "find (\<lambda>t. k t = i) (map (\<lambda>t. if k t = i then f t else t) xs) =
           map_option f (find (\<lambda>t. k t = i) xs)"
  using assms by (induction xs) auto

lemma find_map_upd_other:
  assumes "\<And>t. k (f t) = k t" and "j \<noteq> i"
  shows "find (\<lambda>t. k t = j) (map (\<lambda>t. if k t = i then f t else t) xs) =
           find (\<lambda>t. k t = j) xs"
  using assms by (induction xs) auto

lemma SELECT_one_Task_UPDATE_same:
  assumes "\<And>t. Task.ID (f t) = Task.ID t"
  shows "SELECT_one_Task (UPDATE_Tasks d tid f) tid = map_option f (SELECT_one_Task d tid)"
  using assms by (simp add: SELECT_one_Task_def UPDATE_Tasks_def find_map_upd_same)

lemma SELECT_one_Task_UPDATE_other:
  assumes "\<And>t. Task.ID (f t) = Task.ID t" and "j \<noteq> tid"
  shows "SELECT_one_Task (UPDATE_Tasks d tid f) j = SELECT_one_Task d j"
  using assms by (simp add: SELECT_one_Task_def UPDATE_Tasks_def find_map_upd_other)

lemma Projects_UPDATE_Tasks: "Projects (UPDATE_Tasks d tid f) = Projects d"
  by (simp add: UPDATE_Tasks_def)

subsection \<open>completeTask\<close>

text \<open>
  Claim C2. \<open>completeTask(taskID)\<close>: when no task has the identifier, the payload is
  \<open>{success: false, message: "Task with ID {id} not found"}\<close>; when the task is already
  \<open>DONE\<close>, the payload is \<open>{success: false, message: "Task is already completed"}\<close>;
  in both cases the store is unchanged. Otherwise the payload is a success whose message
  names the task title, the stored task gets status \<open>DONE\<close> and \<open>completedAt\<close> set
  to the current time, all other rows stay as they were, and a second call finds the task
  completed and changes nothing.
\<close>

theorem completeTask_guarded:
  "(SELECT_one_Task d taskID = None \<longrightarrow>
      completeTask e d taskID =
        (\<lparr>success = False, message = js ''Task with ID '' @ taskID @ js '' not found''\<rparr>, d))
   \<and> (\<forall>task. SELECT_one_Task d taskID = Some task \<and> status task = DONE \<longrightarrow>
      completeTask e d taskID =
        (\<lparr>success = False, message = js ''Task is already completed''\<rparr>, d))
   \<and> (\<forall>task. SELECT_one_Task d taskID = Some task \<and> status task \<noteq> DONE \<longrightarrow>
      fst (completeTask e d taskID) =
        \<lparr>success = True, message = js ''Task \"'' @ title task @ js ''\" marked as completed''\<rparr>
      \<and> SELECT_one_Task (snd (completeTask e d taskID)) taskID =
          Some (task\<lparr>status := DONE, completedAt := Some (now e)\<rparr>)
      \<and> (\<forall>j. j \<noteq> taskID \<longrightarrow>
            SELECT_one_Task (snd (completeTask e d taskID)) j = SELECT_one_Task d j)
      \<and> Projects (snd (completeTask e d taskID)) = Projects d
      \<and> completeTask e' (snd (completeTask e d taskID)) taskID =
          (\<lparr>success = False, message = js ''Task is already completed''\<rparr>,
           snd (completeTask e d taskID)))"
proof (intro conjI allI impI)
  assume "SELECT_one_Task d taskID = None"
  then show "completeTask e d taskID =
    (\<lparr>success = False, message = js ''Task with ID '' @ taskID @ js '' not found''\<rparr>, d)"
    by (simp add: completeTask_def)
next
  fix task assume "SELECT_one_Task d taskID = Some task \<and> status task = DONE"
  then show "completeTask e d taskID =
    (\<lparr>success = False, message = js ''Task is already completed''\<rparr>, d)"
    by (simp add: completeTask_def)
next
  fix task assume a: "SELECT_one_Task d taskID = Some task \<and> status task \<noteq> DONE"
  let ?f = "\<lambda>t. t\<lparr>status := DONE, completedAt := Some (now e)\<rparr>"
  have r: "completeTask e d taskID =
      (\<lparr>success = True, message = js ''Task \"'' @ title task @ js ''\" marked as completed''\<rparr>,
       UPDATE_Tasks d taskID ?f)"
    using a by (simp add: completeTask_def)
  have s: "SELECT_one_Task (UPDATE_Tasks d taskID ?f) taskID = Some (?f task)"
    using a by (simp add: SELECT_one_Task_UPDATE_same)
  show "fst (completeTask e d taskID) =
      \<lparr>success = True, message = js ''Task \"'' @ title task @ js ''\" marked as completed''\<rparr>"
    by (simp add: r)
  show "SELECT_one_Task (snd (completeTask e d taskID)) taskID =
      Some (task\<lparr>status := DONE, completedAt := Some (now e)\<rparr>)"
    by (simp add: r s)
  show "Projects (snd (completeTask e d taskID)) = Projects d"
    by (simp add: r Projects_UPDATE_Tasks)
  show "completeTask e' (snd (completeTask e d taskID)) taskID =
      (\<lparr>success = False, message = js ''Task is already completed''\<rparr>,
       snd (completeTask e d taskID))"
    unfolding r snd_conv by (simp add: completeTask_def s)
  fix j assume "j \<noteq> taskID"
  then show "SELECT_one_Task (snd (completeTask e d taskID)) j = SELECT_one_Task d j"
    by (simp add: r SELECT_one_Task_UPDATE_other)
qed

theorem completeTask_guarded_witness:
  "completeTask noon_utc store0 (js ''t9'') =
     (\<lparr>success = False, message = js ''Task with ID t9 not found''\<rparr>, store0)
   \<and> completeTask noon_utc store0 (js ''t2'') =
     (\<lparr>success = False, message = js ''Task is already completed''\<rparr>, store0)
   \<and> fst (completeTask noon_utc store0 (js ''t1'')) =
     \<lparr>success = True, message = js ''Task \"Write report\" marked as completed''\<rparr>
   \<and> SELECT_one_Task (snd (completeTask noon_utc store0 (js ''t1''))) (js ''t1'') =
     Some (task_report\<lparr>status := DONE, completedAt := Some 1705320000000\<rparr>)
   \<and> SELECT_one_Task (snd (completeTask noon_utc store0 (js ''t1''))) (js ''t2'') = Some task_ship
   \<and> completeTask noon_utc (snd (completeTask noon_utc store0 (js ''t1''))) (js ''t1'') =
     (\<lparr>success = False, message = js ''Task is already completed''\<rparr>,
      snd (completeTask noon_utc store0 (js ''t1'')))"
proof -
  have h1: "SELECT_one_Task store0 (js ''t9'') = None" by code_simp
  have h2: "SELECT_one_Task store0 (js ''t2'') = Some task_ship \<and> status task_ship = DONE"
    by code_simp
  have h3: "SELECT_one_Task store0 (js ''t1'') = Some task_report \<and> status task_report \<noteq> DONE"
    by code_simp
  have h4: "js ''t2'' \<noteq> js ''t1''" by code_simp
  have t: "title task_report = js ''Write report''" "now noon_utc = 1705320000000"
    by (simp_all add: task_report_def noon_utc_def)
  have j: "js ''Task with ID '' @ js ''t9'' @ js '' not found'' = js ''Task with ID t9 not found''"
    "js ''Task \"'' @ js ''Write report'' @ js ''\" marked as completed'' =
       js ''Task \"Write report\" marked as completed''"
    by (simp_all add: js_def)
  from completeTask_guarded [of store0 "js ''t9''" noon_utc] h1
       completeTask_guarded [of store0 "js ''t2''" noon_utc] h2
       completeTask_guarded [of store0 "js ''t1''" noon_utc noon_utc] h3 h4
  show ?thesis by (simp add: t j)
qed

subsection \<open>assignTask\<close>

lemma trim_eq_Nil_iff: "trim a = [] \<longleftrightarrow> (\<forall>c\<in>set a. isWhiteSpace c)"
proof
  assume "trim a = []"
  then have "\<forall>c\<in>set (dropWhile isWhiteSpace a). isWhiteSpace c"
    by (simp add: trim_def dropWhile_eq_Nil_conv)
  then have "dropWhile isWhiteSpace a = []"
    by (metis hd_dropWhile list.set_sel(1))
  then show "\<forall>c\<in>set a. isWhiteSpace c"
    by (simp add: dropWhile_eq_Nil_conv)
next
  assume "\<forall>c\<in>set a. isWhiteSpace c"
  then have "dropWhile isWhiteSpace a = []"
    by (simp add: dropWhile_eq_Nil_conv)
  then show "trim a = []"
    unfolding trim_def by (simp only: rev.simps dropWhile.simps)
qed

text \<open>
  Claim C3. \<open>assignTask(taskID, assignedTo)\<close>: a missing, empty or whitespace-only
  assignee gives \<open>{success: false, message: "Assignee name cannot be empty"}\<close> and no
  change of the store; with a proper assignee and no such task the payload is the
  not-found failure, again without change. Otherwise the payload is a success naming the
  task title and the assignee, the stored task gets the assignee, its status goes from
  \<open>TODO\<close> to \<open>IN_PROGRESS\<close> and stays as it is for every other status, and no other
  row changes.
\<close>

theorem assignTask_spec:
  "assignTask d taskID None =
     (\<lparr>success = False, message = js ''Assignee name cannot be empty''\<rparr>, d)
   \<and> ((\<forall>c\<in>set a. isWhiteSpace c) \<longrightarrow>
        assignTask d taskID (Some a) =
          (\<lparr>success = False, message = js ''Assignee name cannot be empty''\<rparr>, d))
   \<and> (\<not> (\<forall>c\<in>set a. isWhiteSpace c) \<and> SELECT_one_Task d taskID = None \<longrightarrow>
        assignTask d taskID (Some a) =
          (\<lparr>success = False, message = js ''Task with ID '' @ taskID @ js '' not found''\<rparr>, d))
   \<and> (\<forall>task. \<not> (\<forall>c\<in>set a. isWhiteSpace c) \<and> SELECT_one_Task d taskID = Some task \<longrightarrow>
        fst (assignTask d taskID (Some a)) =
          \<lparr>success = True, message = js ''Task \"'' @ title task @ js ''\" assigned to '' @ a\<rparr>
        \<and> SELECT_one_Task (snd (assignTask d taskID (Some a))) taskID =
            Some (task\<lparr>assignedTo := Some a,
                       status := (if status task = TODO then IN_PROGRESS else status task)\<rparr>)
        \<and> (\<forall>j. j \<noteq> taskID \<longrightarrow>
              SELECT_one_Task (snd (assignTask d taskID (Some a))) j = SELECT_one_Task d j)
        \<and> Projects (snd (assignTask d taskID (Some a))) = Projects d)"
proof (intro conjI allI impI)
  show "assignTask d taskID None =
     (\<lparr>success = False, message = js ''Assignee name cannot be empty''\<rparr>, d)"
    by (simp add: assignTask_def)
next
  assume "\<forall>c\<in>set a. isWhiteSpace c"
  then have "trim a = []" by (simp add: trim_eq_Nil_iff)
  then show "assignTask d taskID (Some a) =
     (\<lparr>success = False, message = js ''Assignee name cannot be empty''\<rparr>, d)"
    by (simp add: assignTask_def)
next
  assume h: "\<not> (\<forall>c\<in>set a. isWhiteSpace c) \<and> SELECT_one_Task d taskID = None"
  then have "trim a \<noteq> []" "a \<noteq> []" by (auto simp add: trim_eq_Nil_iff)
  with h show "assignTask d taskID (Some a) =
     (\<lparr>success = False, message = js ''Task with ID '' @ taskID @ js '' not found''\<rparr>, d)"
    by (simp add: assignTask_def)
next
  fix task
  assume h: "\<not> (\<forall>c\<in>set a. isWhiteSpace c) \<and> SELECT_one_Task d taskID = Some task"
  let ?f = "\<lambda>t. t\<lparr>assignedTo := Some a,
                    status := (if status task = TODO then IN_PROGRESS else status task)\<rparr>"
  from h have n: "trim a \<noteq> []" "a \<noteq> []" by (auto simp add: trim_eq_Nil_iff)
  have r: "assignTask d taskID (Some a) =
     (\<lparr>success = True, message = js ''Task \"'' @ title task @ js ''\" assigned to '' @ a\<rparr>,
      UPDATE_Tasks d taskID ?f)"
    using h n by (simp add: assignTask_def)
  show "fst (assignTask d taskID (Some a)) =
     \<lparr>success = True, message = js ''Task \"'' @ title task @ js ''\" assigned to '' @ a\<rparr>"
    by (simp add: r)
  show "SELECT_one_Task (snd (assignTask d taskID (Some a))) taskID =
     Some (task\<lparr>assignedTo := Some a,
                status := (if status task = TODO then IN_PROGRESS else status task)\<rparr>)"
    using h by (simp add: r SELECT_one_Task_UPDATE_same)
  show "Projects (snd (assignTask d taskID (Some a))) = Projects d"
    by (simp add: r Projects_UPDATE_Tasks)
  fix j assume "j \<noteq> taskID"
  then show "SELECT_one_Task (snd (assignTask d taskID (Some a))) j = SELECT_one_Task d j"
    by (simp add: r SELECT_one_Task_UPDATE_other)
qed


theorem assignTask_spec_witness:
  "assignTask store0 (js ''t1'') (Some (js '''')) =
     (\<lparr>success = False, message = js ''Assignee name cannot be empty''\<rparr>, store0)
   \<and> assignTask store0 (js ''t1'') (Some [32, 9, 160]) =
     (\<lparr>success = False, message = js ''Assignee name cannot be empty''\<rparr>, store0)
   \<and> assignTask store0 (js ''t9'') (Some (js ''Alice'')) =
     (\<lparr>success = False, message = js ''Task with ID t9 not found''\<rparr>, store0)
   \<and> fst (assignTask store0 (js ''t1'') (Some (js ''Alice''))) =
     \<lparr>success = True, message = js ''Task \"Write report\" assigned to Alice''\<rparr>
   \<and> SELECT_one_Task (snd (assignTask store0 (js ''t1'') (Some (js ''Alice'')))) (js ''t1'') =
     Some (task_report\<lparr>assignedTo := Some (js ''Alice''), status := IN_PROGRESS\<rparr>)
   \<and> SELECT_one_Task (snd (assignTask store0 (js ''t2'') (Some (js ''Alice'')))) (js ''t2'') =
     Some (task_ship\<lparr>assignedTo := Some (js ''Alice''), status := DONE\<rparr>)
   \<and> SELECT_one_Task (snd (assignTask store0 (js ''t1'') (Some (js ''Alice'')))) (js ''t2'') =
     Some task_ship"
proof -
  have w0: "\<forall>c\<in>set (js ''''). isWhiteSpace c" by (simp add: js_def)
  have w1: "\<forall>c\<in>set [32, 9, 160]. isWhiteSpace c" by (simp add: isWhiteSpace_def)
  have w2: "\<not> (\<forall>c\<in>set (js ''Alice''). isWhiteSpace c)" by (simp add: js_def isWhiteSpace_def)
  have h1: "SELECT_one_Task store0 (js ''t9'') = None" by code_simp
  have h2: "SELECT_one_Task store0 (js ''t2'') = Some task_ship" by code_simp
  have h3: "SELECT_one_Task store0 (js ''t1'') = Some task_report" by code_simp
  have h4: "js ''t2'' \<noteq> js ''t1''" by code_simp
  have t: "title task_report = js ''Write report''" "status task_report = TODO"
    "status task_ship = DONE"
    by (simp_all add: task_report_def task_ship_def)
  have j: "js ''Task with ID '' @ js ''t9'' @ js '' not found'' = js ''Task with ID t9 not found''"
    "js ''Task \"'' @ js ''Write report'' @ js ''\" assigned to '' @ js ''Alice'' =
       js ''Task \"Write report\" assigned to Alice''"
    by (simp_all add: js_def)
  from assignTask_spec [of store0 "js ''t1''" "js ''''"] w0
       assignTask_spec [of store0 "js ''t1''" "[32, 9, 160]"] w1
       assignTask_spec [of store0 "js ''t9''" "js ''Alice''"] w2 h1
       assignTask_spec [of store0 "js ''t1''" "js ''Alice''"] h3
       assignTask_spec [of store0 "js ''t2''" "js ''Alice''"] h2 h4
  show ?thesis by (simp add: t j)
qed

subsection \<open>updateProjectBudget\<close>







subsection \<open>getProjectStats\<close>

text \<open>
  Claim C4. \<open>getProjectStats(projectID)\<close> for an identifier that no project has: the
  handler registers an error with status 404, so the caller receives that error and no
  payload. The other three operations answer a missing project or task with a payload
  whose \<open>success\<close> is false, and leave the store as it is. This holds for every
  identifier that does not resolve.
\<close>

theorem getProjectStats_not_found_is_hard_error:
  "(SELECT_one_Project d projectID = None \<longrightarrow>
      call_getProjectStats e d projectID =
        Rejected [(404, js ''Project with ID '' @ projectID @ js '' not found'')]
      \<and> (\<exists>r. updateProjectBudget d projectID newBudget additionalCost = (r, d) \<and> \<not> success r))
   \<and> (SELECT_one_Task d taskID = None \<longrightarrow>
      (\<exists>r. completeTask e d taskID = (r, d) \<and> \<not> success r)
      \<and> (\<exists>r. assignTask d taskID who = (r, d) \<and> \<not> success r))"
proof (intro conjI impI)
  assume h: "SELECT_one_Project d projectID = None"
  show "call_getProjectStats e d projectID =
        Rejected [(404, js ''Project with ID '' @ projectID @ js '' not found'')]"
    using h by (simp add: call_getProjectStats_def getProjectStats_def respond_def Let_def)
  show "\<exists>r. updateProjectBudget d projectID newBudget additionalCost = (r, d) \<and> \<not> success r"
    using h by (simp add: updateProjectBudget_def)
next
  assume h: "SELECT_one_Task d taskID = None"
  show "\<exists>r. completeTask e d taskID = (r, d) \<and> \<not> success r"
    using h by (simp add: completeTask_def)
  show "\<exists>r. assignTask d taskID who = (r, d) \<and> \<not> success r"
    using h by (simp add: assignTask_def split: option.split)
qed


theorem getProjectStats_not_found_is_hard_error_witness:
  "call_getProjectStats noon_utc store0 (js ''p7'') =
     Rejected [(404, js ''Project with ID p7 not found'')]
   \<and> (\<exists>r. updateProjectBudget store0 (js ''p7'') (Val 1200) Undefined = (r, store0) \<and> \<not> success r)
   \<and> (\<exists>r. completeTask noon_utc store0 (js ''t9'') = (r, store0) \<and> \<not> success r)
   \<and> (\<exists>r. assignTask store0 (js ''t9'') (Some (js ''Alice'')) = (r, store0) \<and> \<not> success r)"
proof -
  have h1: "SELECT_one_Project store0 (js ''p7'') = None" by code_simp
  have h2: "SELECT_one_Task store0 (js ''t9'') = None" by code_simp
  have j: "js ''Project with ID '' @ js ''p7'' @ js '' not found'' =
      js ''Project with ID p7 not found''"
    by (simp add: js_def)
  from getProjectStats_not_found_is_hard_error
         [of store0 "js ''p7''" noon_utc "Val 1200" Undefined "js ''t9''" "Some (js ''Alice'')"]
       h1 h2
  show ?thesis by (simp add: j)
qed

subsection \<open>Validation of project writes\<close>

lemma errors_of_append: "errors_of (xs @ ys) = errors_of xs @ errors_of ys"
  by (induction xs rule: errors_of.induct) simp_all

lemma warnings_of_append: "warnings_of (xs @ ys) = warnings_of xs @ warnings_of ys"
  by (induction xs rule: warnings_of.induct) simp_all

lemma new_Date_less: "new_Date a < new_Date b \<longleftrightarrow> a < b"
  by (simp add: new_Date_def msPerDay_def)

lemma before_write_Projects_codes:
  "\<forall>x\<in>set (errors_of (before_write_Projects d p)). fst x = 400"
  by (auto simp add: before_write_Projects_def errors_of_append split: jsfield.splits)

lemma dates_in_payload_checked:
  "Projects_data.startDate p = Val s \<and> Projects_data.endDate p = Val e \<longrightarrow>
     (e < s \<longrightarrow>
        (400, js ''End date must be after start date'') \<in> set (errors_of (before_write_Projects d p))
        \<and> (\<exists>es. run_write (before_write_Projects d p) w d = (Rejected es, d)
                \<and> (\<forall>x\<in>set es. fst x = 400)))
     \<and> (s \<le> e \<longrightarrow>
        (400, js ''End date must be after start date'') \<notin> set (errors_of (before_write_Projects d p))
        \<and> ((\<forall>b. Projects_data.budget p = Val b \<longrightarrow> 0 \<le> b)
             \<and> (\<forall>c. Projects_data.actualCost p = Val c \<longrightarrow> 0 \<le> c) \<longrightarrow>
            (\<exists>ws. run_write (before_write_Projects d p) w d = (Succeeded ws (), w d))))"
proof (intro conjI impI)
  assume h: "Projects_data.startDate p = Val s \<and> Projects_data.endDate p = Val e" and l: "e < s"
  show m: "(400, js ''End date must be after start date'')
      \<in> set (errors_of (before_write_Projects d p))"
    using h l by (simp add: before_write_Projects_def errors_of_append new_Date_less)
  then have "errors_of (before_write_Projects d p) \<noteq> []" by auto
  then have "run_write (before_write_Projects d p) w d =
      (Rejected (errors_of (before_write_Projects d p)), d)"
    by (simp add: run_write_def respond_def)
  then show "\<exists>es. run_write (before_write_Projects d p) w d = (Rejected es, d)
                \<and> (\<forall>x\<in>set es. fst x = 400)"
    using before_write_Projects_codes by blast
next
  assume h: "Projects_data.startDate p = Val s \<and> Projects_data.endDate p = Val e" and l: "s \<le> e"
  have ne: "js ''End date must be after start date'' \<noteq> js ''Budget cannot be negative''"
    "js ''End date must be after start date'' \<noteq> js ''Actual cost cannot be negative''"
    by (simp_all add: js_def)
  show "(400, js ''End date must be after start date'')
      \<notin> set (errors_of (before_write_Projects d p))"
    using h l ne
    by (auto simp add: before_write_Projects_def errors_of_append new_Date_less
        split: jsfield.splits)
  assume "(\<forall>b. Projects_data.budget p = Val b \<longrightarrow> 0 \<le> b)
      \<and> (\<forall>c. Projects_data.actualCost p = Val c \<longrightarrow> 0 \<le> c)"
  then have "errors_of (before_write_Projects d p) = []"
    using h l
    by (auto simp add: before_write_Projects_def errors_of_append new_Date_less
        split: jsfield.splits)
  then show "\<exists>ws. run_write (before_write_Projects d p) w d = (Succeeded ws (), w d)"
    by (simp add: run_write_def respond_def)
qed

text \<open>
  Claim C7, as amended. A CREATE or UPDATE of a project whose payload carries both dates
  with the end date strictly before the start date registers an error with status 400,
  every error of the request has status 400, and the write is not committed. With the
  end date on or after the start date (equal dates included) the date rule registers
  nothing, and the write is committed unless the budget or the actual cost is negative.
  The rule compares the two dates of the payload only: a write that does not carry both
  of them gets no date error, whatever dates are stored.
\<close>

theorem project_dates_validated:
  "(Projects_data.startDate p = Val s \<and> Projects_data.endDate p = Val e \<longrightarrow>
     (e < s \<longrightarrow>
        (400, js ''End date must be after start date'') \<in> set (errors_of (before_write_Projects d p))
        \<and> (\<exists>es. run_write (before_write_Projects d p) w d = (Rejected es, d)
                \<and> (\<forall>x\<in>set es. fst x = 400)))
     \<and> (s \<le> e \<longrightarrow>
        (400, js ''End date must be after start date'') \<notin> set (errors_of (before_write_Projects d p))
        \<and> ((\<forall>b. Projects_data.budget p = Val b \<longrightarrow> 0 \<le> b)
             \<and> (\<forall>c. Projects_data.actualCost p = Val c \<longrightarrow> 0 \<le> c) \<longrightarrow>
            (\<exists>ws. run_write (before_write_Projects d p) w d = (Succeeded ws (), w d)))))
   \<and> ((\<forall>s'. Projects_data.startDate p \<noteq> Val s') \<or> (\<forall>e'. Projects_data.endDate p \<noteq> Val e') \<longrightarrow>
        (400, js ''End date must be after start date'')
          \<notin> set (errors_of (before_write_Projects d p)))"
proof (intro conjI)
  show "Projects_data.startDate p = Val s \<and> Projects_data.endDate p = Val e \<longrightarrow>
     (e < s \<longrightarrow>
        (400, js ''End date must be after start date'') \<in> set (errors_of (before_write_Projects d p))
        \<and> (\<exists>es. run_write (before_write_Projects d p) w d = (Rejected es, d)
                \<and> (\<forall>x\<in>set es. fst x = 400)))
     \<and> (s \<le> e \<longrightarrow>
        (400, js ''End date must be after start date'') \<notin> set (errors_of (before_write_Projects d p))
        \<and> ((\<forall>b. Projects_data.budget p = Val b \<longrightarrow> 0 \<le> b)
             \<and> (\<forall>c. Projects_data.actualCost p = Val c \<longrightarrow> 0 \<le> c) \<longrightarrow>
            (\<exists>ws. run_write (before_write_Projects d p) w d = (Succeeded ws (), w d))))"
    by (rule dates_in_payload_checked)
  have ne: "js ''End date must be after start date'' \<noteq> js ''Budget cannot be negative''"
    "js ''End date must be after start date'' \<noteq> js ''Actual cost cannot be negative''"
    by (simp_all add: js_def)
  show "(\<forall>s'. Projects_data.startDate p \<noteq> Val s') \<or> (\<forall>e'. Projects_data.endDate p \<noteq> Val e') \<longrightarrow>
        (400, js ''End date must be after start date'')
          \<notin> set (errors_of (before_write_Projects d p))"
    using ne
    by (auto simp add: before_write_Projects_def errors_of_append split: jsfield.splits)
qed

text \<open>
  The claim as it was stated speaks of the project, not of the payload, and fails for a
  partial update: project \<open>p1\<close> is stored with start day 19700, an UPDATE carrying
  only the end day 19000 registers nothing and is committed, and the stored project then
  ends before it starts.
\<close>

theorem project_dates_validated_counterexample:
  "SELECT_one_Project store0 (js ''p1'') = Some project_P
   \<and> Project.startDate project_P = Some 19700
   \<and> Projects_data.startDate write_end_only = Undefined
   \<and> Projects_data.endDate write_end_only = Val 19000
   \<and> run_write (before_write_Projects store0 write_end_only) commit_end_only store0 =
       (Succeeded [] (), commit_end_only store0)
   \<and> SELECT_one_Project (commit_end_only store0) (js ''p1'') =
       Some (project_P\<lparr>Project.endDate := Some 19000\<rparr>)"
  by code_simp

theorem project_dates_validated_witness:
  "(400, js ''End date must be after start date'')
      \<in> set (errors_of (before_write_Projects store0 write_reversed_dates))
   \<and> (\<exists>es. run_write (before_write_Projects store0 write_reversed_dates)
              write_end_date store0 = (Rejected es, store0))
   \<and> (\<exists>ws. run_write (before_write_Projects store0 write_same_day)
              write_end_date store0 = (Succeeded ws (), write_end_date store0))
   \<and> (400, js ''End date must be after start date'')
      \<notin> set (errors_of (before_write_Projects store0 write_end_only))"
proof -
  have a: "Projects_data.startDate write_reversed_dates = Val 19800
      \<and> Projects_data.endDate write_reversed_dates = Val 19737"
    by (simp add: write_reversed_dates_def)
  have b: "Projects_data.startDate write_same_day = Val 19737
      \<and> Projects_data.endDate write_same_day = Val 19737"
    "Projects_data.budget write_same_day = Val 1000"
    "Projects_data.actualCost write_same_day = Val 250"
    by (simp_all add: write_same_day_def)
  have c: "\<forall>s'. Projects_data.startDate write_end_only \<noteq> Val s'"
    by (simp add: write_end_only_def)
  from project_dates_validated [of write_reversed_dates 19800 19737 store0 write_end_date] a
  have 1: "(400, js ''End date must be after start date'')
      \<in> set (errors_of (before_write_Projects store0 write_reversed_dates))
   \<and> (\<exists>es. run_write (before_write_Projects store0 write_reversed_dates)
              write_end_date store0 = (Rejected es, store0))"
    by auto
  from project_dates_validated [of write_same_day 19737 19737 store0 write_end_date] b
  have 2: "\<exists>ws. run_write (before_write_Projects store0 write_same_day)
              write_end_date store0 = (Succeeded ws (), write_end_date store0)"
    by simp
  from project_dates_validated [of write_end_only 0 0 store0 write_end_date] c
  have 3: "(400, js ''End date must be after start date'')
      \<notin> set (errors_of (before_write_Projects store0 write_end_only))"
    by blast
  from 1 2 3 show ?thesis by simp
qed

subsection \<open>Deleting a project\<close>

lemma decimal_value_digits: "decimal_value (digits n) = n"
proof (induction n rule: digits.induct)
  case (1 n)
  show ?case
  proof (cases "n < 10")
    case True
    then show ?thesis by (simp add: digits.simps [of n] decimal_value_def)
  next
    case False
    with 1 have "decimal_value (digits (n div 10)) = n div 10" by simp
    with False show ?thesis
      by (simp add: digits.simps [of n] decimal_value_def)
  qed
qed

lemma digits_range: "\<forall>c\<in>set (digits n). 48 \<le> c \<and> c \<le> 57"
proof (induction n rule: digits.induct)
  case (1 n)
  show ?case
  proof (cases "n < 10")
    case True
    then show ?thesis by (simp add: digits.simps [of n])
  next
    case False
    with 1 have "\<forall>c\<in>set (digits (n div 10)). 48 \<le> c \<and> c \<le> 57" by simp
    moreover have "n mod 10 < 10" by simp
    ultimately show ?thesis
      using False by (auto simp add: digits.simps [of n])
  qed
qed

lemma digits_not_Nil: "digits n \<noteq> []"
  by (simp add: digits.simps [of n])

lemma digits_no_leading_zero: "0 < n \<Longrightarrow> hd (digits n) \<noteq> 48"
proof (induction n rule: digits.induct)
  case (1 n)
  show ?case
  proof (cases "n < 10")
    case True
    with 1(2) show ?thesis by (simp add: digits.simps [of n])
  next
    case False
    then have "0 < n div 10" by simp
    with 1(1) False have "hd (digits (n div 10)) \<noteq> 48" by simp
    then show ?thesis
      using False digits_not_Nil [of "n div 10"] by (simp add: digits.simps [of n])
  qed
qed

text \<open>
  Claim C9. Deleting a project that at least one task with a status other than \<open>DONE\<close>
  refers to is rejected with status 400 and not committed, and the message shows the
  number of those tasks as its decimal numeral: a string of digits without a leading
  zero whose value is that number. When every task of the project is \<open>DONE\<close>, or it
  has none, the handler registers nothing and the delete is committed.
\<close>

theorem delete_blocked_by_active_tasks:
  "((\<exists>t\<in>set (Tasks d). Task.project_ID t = Some projectID \<and> status t \<noteq> DONE) \<longrightarrow>
      (\<exists>n. n = length (filter (\<lambda>t. Task.project_ID t = Some projectID \<and> status t \<noteq> DONE) (Tasks d))
         \<and> 0 < n
         \<and> (\<forall>c\<in>set (digits n). 48 \<le> c \<and> c \<le> 57)
         \<and> hd (digits n) \<noteq> 48
         \<and> decimal_value (digits n) = n
         \<and> run_write (before_DELETE_Projects d projectID) w d =
             (Rejected [(400, js ''Cannot delete project with '' @ digits n
                              @ js '' active task(s). Complete or reassign them first.'')], d)))
   \<and> ((\<forall>t\<in>set (Tasks d). Task.project_ID t = Some projectID \<longrightarrow> status t = DONE) \<longrightarrow>
      before_DELETE_Projects d projectID = []
      \<and> run_write (before_DELETE_Projects d projectID) w d = (Succeeded [] (), w d))"
proof (intro conjI impI)
  let ?act = "filter (\<lambda>t. Task.project_ID t = Some projectID \<and> status t \<noteq> DONE) (Tasks d)"
  assume "\<exists>t\<in>set (Tasks d). Task.project_ID t = Some projectID \<and> status t \<noteq> DONE"
  then have "?act \<noteq> []" by (simp add: filter_empty_conv)
  then have pos: "0 < length ?act" by simp
  then have r: "run_write (before_DELETE_Projects d projectID) w d =
      (Rejected [(400, js ''Cannot delete project with '' @ digits (length ?act)
                       @ js '' active task(s). Complete or reassign them first.'')], d)"
    by (simp add: run_write_def respond_def before_DELETE_Projects_def activeTasks_def)
  show "\<exists>n. n = length ?act \<and> 0 < n
      \<and> (\<forall>c\<in>set (digits n). 48 \<le> c \<and> c \<le> 57)
      \<and> hd (digits n) \<noteq> 48
      \<and> decimal_value (digits n) = n
      \<and> run_write (before_DELETE_Projects d projectID) w d =
          (Rejected [(400, js ''Cannot delete project with '' @ digits n
                           @ js '' active task(s). Complete or reassign them first.'')], d)"
    using pos r digits_range [of "length ?act"] digits_no_leading_zero [OF pos]
      decimal_value_digits [of "length ?act"]
    by blast
next
  assume "\<forall>t\<in>set (Tasks d). Task.project_ID t = Some projectID \<longrightarrow> status t = DONE"
  then have "activeTasks d projectID = []"
    by (auto simp add: activeTasks_def filter_empty_conv)
  then show e: "before_DELETE_Projects d projectID = []"
    by (simp add: before_DELETE_Projects_def)
  show "run_write (before_DELETE_Projects d projectID) w d = (Succeeded [] (), w d)"
    by (simp add: e run_write_def respond_def)
qed

theorem delete_blocked_by_active_tasks_witness:
  "run_write (before_DELETE_Projects store_busy (js ''p1'')) delete_p1 store_busy =
     (Rejected [(400, js ''Cannot delete project with 12 active task(s). Complete or reassign them first.'')],
      store_busy)
   \<and> run_write (before_DELETE_Projects store0 (js ''p1'')) delete_p1 store0 =
     (Rejected [(400, js ''Cannot delete project with 1 active task(s). Complete or reassign them first.'')],
      store0)
   \<and> run_write (before_DELETE_Projects store_done (js ''p1'')) delete_p1 store_done =
     (Succeeded [] (), \<lparr>Projects = [], Tasks = []\<rparr>)"
proof -
  have a12: "\<exists>t\<in>set (Tasks store_busy). Task.project_ID t = Some (js ''p1'') \<and> status t \<noteq> DONE"
    by code_simp
  have n12: "length (filter (\<lambda>t. Task.project_ID t = Some (js ''p1'') \<and> status t \<noteq> DONE)
      (Tasks store_busy)) = 12"
    by code_simp
  have j12: "js ''Cannot delete project with '' @ digits 12
      @ js '' active task(s). Complete or reassign them first.'' =
      js ''Cannot delete project with 12 active task(s). Complete or reassign them first.''"
    by code_simp
  have a: "\<exists>t\<in>set (Tasks store0). Task.project_ID t = Some (js ''p1'') \<and> status t \<noteq> DONE"
    by (simp add: store0_def task_report_def)
  have n: "length (filter (\<lambda>t. Task.project_ID t = Some (js ''p1'') \<and> status t \<noteq> DONE)
      (Tasks store0)) = 1"
    by (simp add: store0_def task_report_def task_ship_def)
  have b: "\<forall>t\<in>set (Tasks store_done). Task.project_ID t = Some (js ''p1'') \<longrightarrow> status t = DONE"
    by (simp add: store_done_def task_ship_def)
  have j: "js ''Cannot delete project with '' @ digits 1
      @ js '' active task(s). Complete or reassign them first.'' =
      js ''Cannot delete project with 1 active task(s). Complete or reassign them first.''"
    by code_simp
  have w: "delete_p1 store_done = \<lparr>Projects = [], Tasks = []\<rparr>"
    by (simp add: delete_p1_def store_done_def project_P_def task_ship_def)
  from delete_blocked_by_active_tasks [of store_busy "js ''p1''" delete_p1] a12
  have "run_write (before_DELETE_Projects store_busy (js ''p1'')) delete_p1 store_busy =
     (Rejected [(400, js ''Cannot delete project with ''
        @ digits (length (filter (\<lambda>t. Task.project_ID t = Some (js ''p1'') \<and> status t \<noteq> DONE)
            (Tasks store_busy)))
        @ js '' active task(s). Complete or reassign them first.'')], store_busy)"
    by blast
  then have 0: "run_write (before_DELETE_Projects store_busy (js ''p1'')) delete_p1 store_busy =
     (Rejected [(400, js ''Cannot delete project with 12 active task(s). Complete or reassign them first.'')],
      store_busy)"
    by (simp only: n12 j12)
  from delete_blocked_by_active_tasks [of store0 "js ''p1''" delete_p1] a
  have "run_write (before_DELETE_Projects store0 (js ''p1'')) delete_p1 store0 =
     (Rejected [(400, js ''Cannot delete project with ''
        @ digits (length (filter (\<lambda>t. Task.project_ID t = Some (js ''p1'') \<and> status t \<noteq> DONE)
            (Tasks store0)))
        @ js '' active task(s). Complete or reassign them first.'')], store0)"
    by blast
  then have 1: "run_write (before_DELETE_Projects store0 (js ''p1'')) delete_p1 store0 =
     (Rejected [(400, js ''Cannot delete project with 1 active task(s). Complete or reassign them first.'')],
      store0)"
    by (simp only: n j)
  from delete_blocked_by_active_tasks [of store_done "js ''p1''" delete_p1] b
  have "run_write (before_DELETE_Projects store_done (js ''p1'')) delete_p1 store_done =
     (Succeeded [] (), delete_p1 store_done)"
    by blast
  then have 2: "run_write (before_DELETE_Projects store_done (js ''p1'')) delete_p1 store_done =
     (Succeeded [] (), \<lparr>Projects = [], Tasks = []\<rparr>)"
    by (simp only: w)
  from 0 1 2 show ?thesis by simp
qed

subsection \<open>Partial updates\<close>

text \<open>
  Claim C10. Validation before a write reads the request payload only, apart from the
  one lookup of the project a task payload refers to: the messages for a project write
  are the same for every store, and those for a task write depend on the store only
  through whether the referenced project exists. A check whose property is absent from
  the payload registers nothing: no date error when either date is absent, and no
  negativity error for an absent budget, actual cost, estimated hours or actual hours. So
  an UPDATE that carries only an end date is committed whatever start date is stored.
\<close>

theorem validation_reads_payload_only:
  "before_write_Projects d p = before_write_Projects d' p
   \<and> ((\<forall>pid. Tasks_data.project_ID t = Val pid \<longrightarrow>
          (SELECT_one_Project d pid = None \<longleftrightarrow> SELECT_one_Project d' pid = None)) \<longrightarrow>
        before_write_Tasks d t = before_write_Tasks d' t)
   \<and> (Projects_data.startDate p = Undefined \<or> Projects_data.endDate p = Undefined \<longrightarrow>
        (400, js ''End date must be after start date'')
          \<notin> set (errors_of (before_write_Projects d p)))
   \<and> (Projects_data.budget p = Undefined \<longrightarrow>
        (400, js ''Budget cannot be negative'') \<notin> set (errors_of (before_write_Projects d p)))
   \<and> (Projects_data.actualCost p = Undefined \<longrightarrow>
        (400, js ''Actual cost cannot be negative'')
          \<notin> set (errors_of (before_write_Projects d p)))
   \<and> (estimatedHours t = Undefined \<longrightarrow>
        (400, js ''Estimated hours cannot be negative'')
          \<notin> set (errors_of (before_write_Tasks d t)))
   \<and> (actualHours t = Undefined \<longrightarrow>
        (400, js ''Actual hours cannot be negative'')
          \<notin> set (errors_of (before_write_Tasks d t)))
   \<and> (Projects_data.startDate p = Undefined \<and> Projects_data.budget p = Undefined
        \<and> Projects_data.actualCost p = Undefined \<longrightarrow>
        run_write (before_write_Projects d p) w d = (Succeeded [] (), w d))"
proof (intro conjI impI)
  have ne: "js ''End date must be after start date'' \<noteq> js ''Budget cannot be negative''"
    "js ''End date must be after start date'' \<noteq> js ''Actual cost cannot be negative''"
    "js ''Budget cannot be negative'' \<noteq> js ''Actual cost cannot be negative''"
    "js ''Budget cannot be negative'' \<noteq> js ''End date must be after start date''"
    "js ''Actual cost cannot be negative'' \<noteq> js ''End date must be after start date''"
    "js ''Actual cost cannot be negative'' \<noteq> js ''Budget cannot be negative''"
    "js ''Estimated hours cannot be negative'' \<noteq> js ''Actual hours cannot be negative''"
    "js ''Actual hours cannot be negative'' \<noteq> js ''Estimated hours cannot be negative''"
    by (simp_all add: js_def)
  show "before_write_Projects d p = before_write_Projects d' p"
    by (simp add: before_write_Projects_def)
  show "before_write_Tasks d t = before_write_Tasks d' t"
    if "\<forall>pid. Tasks_data.project_ID t = Val pid \<longrightarrow>
          (SELECT_one_Project d pid = None \<longleftrightarrow> SELECT_one_Project d' pid = None)"
    using that by (auto simp add: before_write_Tasks_def split: jsfield.splits option.splits)
  show "(400, js ''End date must be after start date'')
      \<notin> set (errors_of (before_write_Projects d p))"
    if "Projects_data.startDate p = Undefined \<or> Projects_data.endDate p = Undefined"
    using that ne
    by (auto simp add: before_write_Projects_def errors_of_append split: jsfield.splits)
  show "(400, js ''Budget cannot be negative'') \<notin> set (errors_of (before_write_Projects d p))"
    if "Projects_data.budget p = Undefined"
    using that ne
    by (auto simp add: before_write_Projects_def errors_of_append split: jsfield.splits)
  show "(400, js ''Actual cost cannot be negative'')
      \<notin> set (errors_of (before_write_Projects d p))"
    if "Projects_data.actualCost p = Undefined"
    using that ne
    by (auto simp add: before_write_Projects_def errors_of_append split: jsfield.splits)
  show "(400, js ''Estimated hours cannot be negative'')
      \<notin> set (errors_of (before_write_Tasks d t))"
    if "estimatedHours t = Undefined"
    using that ne
    by (auto simp add: before_write_Tasks_def errors_of_append split: jsfield.splits option.splits)
  show "(400, js ''Actual hours cannot be negative'')
      \<notin> set (errors_of (before_write_Tasks d t))"
    if "actualHours t = Undefined"
    using that ne
    by (auto simp add: before_write_Tasks_def errors_of_append split: jsfield.splits option.splits)
  show "run_write (before_write_Projects d p) w d = (Succeeded [] (), w d)"
    if "Projects_data.startDate p = Undefined \<and> Projects_data.budget p = Undefined
        \<and> Projects_data.actualCost p = Undefined"
    using that by (simp add: before_write_Projects_def run_write_def respond_def)
qed


theorem validation_reads_payload_only_witness:
  "before_write_Projects store0 write_end_only = before_write_Projects empty_store write_end_only
   \<and> before_write_Tasks store0 write_title_only = before_write_Tasks empty_store write_title_only
   \<and> (400, js ''End date must be after start date'')
        \<notin> set (errors_of (before_write_Projects store0 write_end_only))
   \<and> (400, js ''Budget cannot be negative'')
        \<notin> set (errors_of (before_write_Projects store0 write_end_only))
   \<and> (400, js ''Actual cost cannot be negative'')
        \<notin> set (errors_of (before_write_Projects store0 write_end_only))
   \<and> (400, js ''Estimated hours cannot be negative'')
        \<notin> set (errors_of (before_write_Tasks store0 write_title_only))
   \<and> (400, js ''Actual hours cannot be negative'')
        \<notin> set (errors_of (before_write_Tasks store0 write_title_only))
   \<and> Project.startDate project_P = Some 19700
   \<and> SELECT_one_Project store0 (js ''p1'') = Some project_P
   \<and> run_write (before_write_Projects store0 write_end_only) write_end_date store0 =
       (Succeeded [] (), write_end_date store0)"
proof -
  have p: "Projects_data.startDate write_end_only = Undefined"
    "Projects_data.budget write_end_only = Undefined"
    "Projects_data.actualCost write_end_only = Undefined"
    by (simp_all add: write_end_only_def)
  have t: "estimatedHours write_title_only = Undefined"
    "actualHours write_title_only = Undefined"
    "Tasks_data.project_ID write_title_only = Undefined"
    by (simp_all add: write_title_only_def)
  have s: "Project.startDate project_P = Some 19700" by (simp add: project_P_def)
  have l: "SELECT_one_Project store0 (js ''p1'') = Some project_P" by code_simp
  note th = validation_reads_payload_only
         [of store0 write_end_only empty_store write_title_only write_end_date]
  from th have c: "before_write_Tasks store0 write_title_only =
      before_write_Tasks empty_store write_title_only"
    by (simp add: t)
  from th p t s l c show ?thesis by blast
qed

subsection \<open>The cost warning\<close>

lemma cost_warning_when_nonzero:
  assumes "Projects_data.budget p = Val b" and "Projects_data.actualCost p = Val c"
    and "b \<noteq> 0" and "c \<noteq> 0" and "b < c"
  shows "warnings_of (before_write_Projects d p) = [js ''Actual cost exceeds budget'']"
    and "errors_of (before_write_Projects d p) = [] \<Longrightarrow>
           run_write (before_write_Projects d p) w d =
             (Succeeded [js ''Actual cost exceeds budget''] (), w d)"
proof -
  show *: "warnings_of (before_write_Projects d p) = [js ''Actual cost exceeds budget'']"
    using assms
    by (simp add: before_write_Projects_def warnings_of_append split: jsfield.splits)
  show "run_write (before_write_Projects d p) w d =
      (Succeeded [js ''Actual cost exceeds budget''] (), w d)"
    if "errors_of (before_write_Projects d p) = []"
    using that * by (simp add: run_write_def respond_def)
qed

lemma negative_amount_rejected:
  assumes "Projects_data.budget p = Val b \<and> b < 0 \<or> Projects_data.actualCost p = Val c \<and> c < 0"
  shows "\<exists>es. run_write (before_write_Projects d p) w d = (Rejected es, d)
           \<and> es \<noteq> [] \<and> (\<forall>x\<in>set es. fst x = 400)"
proof -
  from assms have "errors_of (before_write_Projects d p) \<noteq> []"
    by (auto simp add: before_write_Projects_def errors_of_append split: jsfield.splits)
  then show ?thesis
    using before_write_Projects_codes [of d p] by (simp add: run_write_def respond_def)
qed

text \<open>
  Claim C8 says that a write whose payload carries a budget and an actual cost above it
  gets a warning and still proceeds, and that a negative amount is rejected with status
  400. The two lemmas above show this for a budget and a cost other than 0. For a budget
  of 0 and a cost of 50 both properties are present and the cost exceeds the budget, yet
  the handler registers no message at all: the guard tests the budget for truthiness,
  and 0 is falsy.
\<close>

theorem zero_budget_overrun_not_warned:
  "Projects_data.budget write_zero_budget = Val 0
   \<and> Projects_data.actualCost write_zero_budget = Val 50
   \<and> before_write_Projects d write_zero_budget = []
   \<and> run_write (before_write_Projects d write_zero_budget) w d = (Succeeded [] (), w d)"
  by (simp add: write_zero_budget_def before_write_Projects_def run_write_def respond_def)

subsection \<open>Overdue tasks\<close>

lemma today_midnight_local_date:
  "today_midnight e = local_date e * msPerDay - tzOffset e * 60000"
  by (simp add: today_midnight_def local_date_def Let_def)

lemma overdue_east_of_UTC:
  assumes "0 \<le> tzOffset e" and "tzOffset e < 1440"
  shows "new_Date day < today_midnight e \<longleftrightarrow> day < local_date e"
proof -
  have "day * msPerDay < local_date e * msPerDay - tzOffset e * 60000 \<longleftrightarrow> day < local_date e"
  proof
    assume "day * msPerDay < local_date e * msPerDay - tzOffset e * 60000"
    with assms have "day * msPerDay < local_date e * msPerDay" by simp
    then show "day < local_date e" by (simp add: msPerDay_def)
  next
    assume "day < local_date e"
    then have "day + 1 \<le> local_date e" by simp
    then have "(day + 1) * msPerDay \<le> local_date e * msPerDay"
      by (simp add: msPerDay_def)
    with assms show "day * msPerDay < local_date e * msPerDay - tzOffset e * 60000"
      by (simp add: msPerDay_def algebra_simps)
  qed
  then show ?thesis by (simp add: new_Date_def today_midnight_local_date)
qed

lemma isOverdue_east_of_UTC:
  assumes "0 \<le> tzOffset e" and "tzOffset e < 1440"
  shows "isOverdue (derive_Task e task) =
     Some (status task \<noteq> DONE \<and> (\<exists>day. dueDate task = Some day \<and> day < local_date e))"
  using overdue_east_of_UTC [OF assms]
  by (auto simp add: derive_Task_def split: option.split)

text \<open>
  Claim C6 says that after a read a task is overdue exactly when it is not \<open>DONE\<close> and
  its due date is present and lies before today, comparing calendar dates in the local
  zone. The handler compares midnight UTC of the due date with local midnight of today.
  At UTC and to the east of it that is the comparison of the claim, as the lemma above
  shows. Five hours west of UTC, at noon of 2024-01-15 (day 19737), an open task due on
  that very day is returned as overdue.
\<close>

theorem due_today_overdue_west_of_UTC:
  "local_date noon_utc_minus_5 = 19737
   \<and> dueDate task_report = Some 19737
   \<and> status task_report = TODO
   \<and> isOverdue (derive_Task noon_utc_minus_5 task_report) = Some True
   \<and> after_READ_Tasks noon_utc_minus_5 (One (Some task_report)) =
       One (Some (task_report\<lparr>isOverdue := Some True\<rparr>))"
  by code_simp

subsection \<open>Rounding of numbers\<close>

text \<open>
  \<open>fl64\<close> changes a positive number by at most the fraction \<open>2\<^sup>-\<^sup>5\<^sup>3\<close> of it, so the
  percentage the handlers compute is within \<open>2\<^sup>-\<^sup>4\<^sup>4\<close> of the exact quotient.
\<close>

lemma ilog2_bounds:
  assumes "0 < x"
  shows "2 powi ilog2 x \<le> x" and "x < 2 powi (ilog2 x + 1)"
proof -
  show "2 powi ilog2 x \<le> x"
  proof (cases "1 \<le> x")
    case True
    define m where "m = \<lfloor>x\<rfloor>"
    from True have m: "0 < m" by (simp add: m_def)
    then have b1: "1 \<le> bitlen m" by (simp add: bitlen_alt_def)
    from bitlen_bounds [OF m] have "2 ^ nat (bitlen m - 1) \<le> m" by simp
    then have "(2::rat) ^ nat (bitlen m - 1) \<le> of_int m"
      by (metis of_int_le_iff of_int_numeral of_int_power)
    also have "\<dots> \<le> x" by (simp add: m_def)
    finally show ?thesis
      using True b1 by (simp add: ilog2_def m_def power_int_nonneg_exp)
  next
    case False
    define y where "y = 1 / x"
    define m where "m = \<lceil>y\<rceil> - 1"
    from False assms have y1: "1 < y" by (simp add: y_def)
    then have m: "0 < m" unfolding m_def by linarith
    have ym: "y \<le> of_int m + 1" unfolding m_def by simp
    from bitlen_bounds [OF m] have "m + 1 \<le> 2 ^ nat (bitlen m)" by simp
    then have "of_int (m + 1) \<le> (2::rat) ^ nat (bitlen m)"
      by (metis of_int_le_iff of_int_numeral of_int_power)
    with ym have "y \<le> 2 ^ nat (bitlen m)" by linarith
    then have "1 / 2 ^ nat (bitlen m) \<le> x"
      using assms by (simp add: y_def field_simps)
    moreover have "2 powi (- bitlen m) = (1::rat) / 2 ^ nat (bitlen m)"
      using bitlen_nonneg [of m] by (simp add: power_int_minus_divide power_int_nonneg_exp)
    ultimately show ?thesis
      using False by (simp add: ilog2_def m_def y_def)
  qed
  show "x < 2 powi (ilog2 x + 1)"
  proof (cases "1 \<le> x")
    case True
    define m where "m = \<lfloor>x\<rfloor>"
    from True have m: "0 < m" by (simp add: m_def)
    then have b1: "1 \<le> bitlen m" by (simp add: bitlen_alt_def)
    from bitlen_bounds [OF m] have "m + 1 \<le> 2 ^ nat (bitlen m)" by simp
    then have "of_int (m + 1) \<le> (2::rat) ^ nat (bitlen m)"
      by (metis of_int_le_iff of_int_numeral of_int_power)
    moreover have "x < of_int (m + 1)" unfolding m_def by linarith
    ultimately have "x < 2 ^ nat (bitlen m)" by linarith
    then show ?thesis
      using True b1 by (simp add: ilog2_def m_def power_int_nonneg_exp)
  next
    case False
    define y where "y = 1 / x"
    define m where "m = \<lceil>y\<rceil> - 1"
    from False assms have y1: "1 < y" by (simp add: y_def)
    then have m: "0 < m" unfolding m_def by linarith
    then have b1: "1 \<le> bitlen m" by (simp add: bitlen_alt_def)
    have my: "of_int m < y" unfolding m_def by linarith
    from bitlen_bounds [OF m] have "2 ^ nat (bitlen m - 1) \<le> m" by simp
    then have "(2::rat) ^ nat (bitlen m - 1) \<le> of_int m"
      by (metis of_int_le_iff of_int_numeral of_int_power)
    from this my have "2 ^ nat (bitlen m - 1) < y" by (rule le_less_trans)
    then have "x < 1 / 2 ^ nat (bitlen m - 1)"
      using assms by (simp add: y_def field_simps)
    moreover have "2 powi (- bitlen m + 1) = (1::rat) / 2 ^ nat (bitlen m - 1)"
    proof -
      have "- bitlen m + 1 = - (bitlen m - 1)" by simp
      then show ?thesis
        using b1 by (simp only: power_int_minus_divide) (simp add: power_int_nonneg_exp)
    qed
    ultimately show ?thesis
      using False by (simp add: ilog2_def m_def y_def)
  qed
qed

lemma round_half_even_close: "\<bar>of_int (round_half_even y) - y\<bar> \<le> 1 / 2"
proof -
  have "of_int \<lfloor>y\<rfloor> \<le> y" "y < of_int \<lfloor>y\<rfloor> + 1" by linarith+
  then show ?thesis
    by (auto simp add: round_half_even_def Let_def)
qed

lemma fl64_error:
  assumes "0 < x"
  shows "\<bar>fl64 x - x\<bar> \<le> x / 2 ^ 53"
proof -
  define u :: rat where "u = 2 powi (ilog2 x - 52)"
  have u: "0 < u" by (simp add: u_def)
  have f: "fl64 x = of_int (round_half_even (x / u)) * u"
    using assms by (simp add: fl64_def u_def Let_def)
  have "fl64 x - x = (of_int (round_half_even (x / u)) - x / u) * u"
    using u by (simp add: f field_simps)
  then have "\<bar>fl64 x - x\<bar> = \<bar>of_int (round_half_even (x / u)) - x / u\<bar> * u"
    using u by (simp add: abs_mult)
  also have "\<dots> \<le> (1 / 2) * u"
    using round_half_even_close [of "x / u"] u by (intro mult_right_mono) simp_all
  also have "(1 / 2) * u = 2 powi ilog2 x / 2 ^ 53"
    by (simp add: u_def power_int_diff)
  also have "\<dots> \<le> x / 2 ^ 53"
    using ilog2_bounds(1) [OF assms] by (simp add: divide_right_mono)
  finally show ?thesis .
qed

lemma fl64_zero: "fl64 0 = 0"
  by (simp add: fl64_def)

lemma percent_error:
  assumes "0 < c" and "c \<le> t"
  shows "\<bar>js_times (js_divide (of_nat c) (of_nat t)) 100 - 100 * of_nat c / of_nat t\<bar> < 1 / 2 ^ 44"
proof -
  define q :: rat where "q = of_nat c / of_nat t"
  define x1 where "x1 = fl64 q"
  define y where "y = x1 * 100"
  define x2 where "x2 = fl64 y"
  from assms have q: "0 < q" "q \<le> 1" by (simp_all add: q_def)
  have e1: "\<bar>x1 - q\<bar> \<le> q / 2 ^ 53"
    unfolding x1_def using q(1) by (rule fl64_error)
  have "q / 2 ^ 53 < q" using q(1) by simp
  with e1 have x1: "0 < x1" by linarith
  have "q / 2 ^ 53 \<le> 1" using q by (simp add: field_simps)
  with e1 q have x1u: "x1 \<le> 2" by linarith
  from x1 have y: "0 < y" by (simp add: y_def)
  have e2: "\<bar>x2 - y\<bar> \<le> y / 2 ^ 53"
    unfolding x2_def using y by (rule fl64_error)
  from x1u have "y \<le> 200" by (simp add: y_def)
  then have "y / 2 ^ 53 \<le> 200 / 2 ^ 53" by (simp add: divide_right_mono)
  with e2 have a: "\<bar>x2 - y\<bar> \<le> 200 / 2 ^ 53" by linarith
  have "q / 2 ^ 53 \<le> 1 / 2 ^ 53" using q(2) by (simp add: divide_right_mono)
  with e1 have "\<bar>x1 - q\<bar> \<le> 1 / 2 ^ 53" by linarith
  then have "\<bar>x1 - q\<bar> * 100 \<le> (1 / 2 ^ 53) * 100" by (rule mult_right_mono) simp
  moreover have "y - 100 * q = (x1 - q) * 100"
    by (simp add: y_def algebra_simps)
  then have "\<bar>y - 100 * q\<bar> = \<bar>x1 - q\<bar> * 100"
    by (simp only: abs_mult)
  ultimately have b: "\<bar>y - 100 * q\<bar> \<le> 100 / 2 ^ 53" by simp
  have "\<bar>x2 - 100 * q\<bar> \<le> \<bar>x2 - y\<bar> + \<bar>y - 100 * q\<bar>" by linarith
  with a b have "\<bar>x2 - 100 * q\<bar> \<le> 300 / 2 ^ 53" by linarith
  also have "(300::rat) / 2 ^ 53 < 1 / 2 ^ 44" by simp
  finally show ?thesis
    by (simp add: x2_def y_def x1_def q_def js_times_def js_divide_def)
qed

lemma floor_half: "\<lfloor>(1::rat) / 2\<rfloor> = 0"
  by (rule floor_unique) simp_all

lemma rate_zero_done: "rate 0 t = 0"
  by (simp add: rate_def js_divide_def js_times_def fl64_zero Math_round_def floor_half)

lemma rate_range:
  assumes "c \<le> t"
  shows "0 \<le> rate c t" and "rate c t \<le> 100"
proof -
  have "0 \<le> rate c t \<and> rate c t \<le> 100"
  proof (cases "c = 0 \<or> t = 0")
    case True
    then show ?thesis
    proof
      assume "c = 0"
      then show ?thesis by (simp add: rate_zero_done)
    next
      assume "t = 0"
      then show ?thesis by (simp add: rate_def)
    qed
  next
    case False
    then have c: "0 < c" and t: "0 < t" by simp_all
    define x2 where "x2 = js_times (js_divide (of_nat c) (of_nat t)) 100"
    define v :: rat where "v = 100 * of_nat c / of_nat t"
    have e: "\<bar>x2 - v\<bar> < 1 / 2 ^ 44"
      unfolding x2_def v_def using c assms by (rule percent_error)
    have "(of_nat c :: rat) / of_nat t \<le> 1" using t assms by simp
    then have "100 * ((of_nat c :: rat) / of_nat t) \<le> 100 * 1"
      by (rule mult_left_mono) simp
    then have v: "0 < v" "v \<le> 100" using c t by (simp_all add: v_def)
    have "(1::rat) / 2 ^ 44 < 1 / 2" by simp
    with e v have "0 \<le> x2 + 1 / 2" "x2 + 1 / 2 < 101" by linarith+
    then have "0 \<le> \<lfloor>x2 + 1 / 2\<rfloor>" "\<lfloor>x2 + 1 / 2\<rfloor> < 101"
      by (simp_all add: floor_less_iff)
    then show ?thesis
      using t by (simp add: rate_def Math_round_def x2_def)
  qed
  then show "0 \<le> rate c t" and "rate c t \<le> 100" by simp_all
qed

lemma rate_exact_or_tie:
  assumes "0 < t" and "c \<le> t" and "t < 2 ^ 32"
  shows "rate c t = Math_round (100 * of_nat c / of_nat t)
         \<or> 100 * of_nat c / of_nat t + 1 / 2 = rat_of_int (Math_round (100 * of_nat c / of_nat t))
           \<and> rate c t = Math_round (100 * of_nat c / of_nat t) - 1"
proof (cases "c = 0")
  case True
  with assms show ?thesis by (simp add: rate_zero_done Math_round_def floor_half)
next
  case False
  then have c: "0 < c" by simp
  define x2 where "x2 = js_times (js_divide (of_nat c) (of_nat t)) 100"
  define v :: rat where "v = 100 * of_nat c / of_nat t"
  define k where "k = (200 * c + t) div (2 * t)"
  define r where "r = (200 * c + t) mod (2 * t)"
  have e: "\<bar>x2 - v\<bar> < 1 / 2 ^ 44"
    unfolding x2_def v_def using c assms(2) by (rule percent_error)
  have rt: "rate c t = \<lfloor>x2 + 1 / 2\<rfloor>"
    using assms(1) by (simp add: rate_def Math_round_def x2_def)
  have kr: "200 * c + t = k * (2 * t) + r"
    by (simp only: k_def r_def div_mult_mod_eq)
  have r2: "r < 2 * t"
    using assms(1) by (simp add: r_def)
  have krr: "(of_nat (200 * c + t) :: rat) = of_nat k * of_nat (2 * t) + of_nat r"
    by (subst kr) (simp only: of_nat_add of_nat_mult)
  have "v + 1 / 2 = of_nat (200 * c + t) / of_nat (2 * t)"
    using assms(1) by (simp add: v_def field_simps)
  also have "\<dots> = (of_nat k * of_nat (2 * t) + of_nat r) / of_nat (2 * t)"
    by (simp only: krr)
  also have "\<dots> = of_nat k + of_nat r / of_nat (2 * t)"
    using assms(1) by (simp add: add_divide_distrib)
  finally have vk: "v + 1 / 2 = of_nat k + of_nat r / of_nat (2 * t)" .
  have r0: "0 \<le> (of_nat r :: rat) / of_nat (2 * t)" by simp
  have r1: "(of_nat r :: rat) / of_nat (2 * t) < 1"
    using r2 assms(1) by (simp add: field_simps flip: of_nat_mult)
  have mv: "Math_round v = int k"
  proof -
    have "\<lfloor>v + 1 / 2\<rfloor> = int k"
      unfolding vk using r0 r1 by (intro floor_unique) simp_all
    then show ?thesis by (simp add: Math_round_def)
  qed
  have t44: "(1::rat) / 2 ^ 44 \<le> 1 / of_nat (2 * t)"
  proof -
    from assms(3) have "2 * t \<le> 2 ^ 44" by simp
    then have "(of_nat (2 * t) :: rat) \<le> of_nat (2 ^ 44)" by (simp only: of_nat_le_iff)
    then have "(of_nat (2 * t) :: rat) \<le> 2 ^ 44" by simp
    then show ?thesis
      using assms(1) by (intro divide_left_mono) simp_all
  qed
  show ?thesis
  proof (cases "r = 0")
    case True
    from True vk have d: "v + 1 / 2 = of_int (Math_round v)" by (simp add: mv)
    from True vk have "v + 1 / 2 = of_nat k" by simp
    moreover have "(1::rat) / 2 ^ 44 < 1" by simp
    ultimately have "of_nat k - 1 \<le> x2 + 1 / 2" "x2 + 1 / 2 < of_nat k + 1"
      using e by linarith+
    then have "\<lfloor>x2 + 1 / 2\<rfloor> = int k \<or> \<lfloor>x2 + 1 / 2\<rfloor> = int k - 1"
    proof (cases "x2 + 1 / 2 < of_nat k")
      case True
      with \<open>of_nat k - 1 \<le> x2 + 1 / 2\<close> have "\<lfloor>x2 + 1 / 2\<rfloor> = int k - 1"
        by (intro floor_unique) simp_all
      then show ?thesis by simp
    next
      case False
      with \<open>x2 + 1 / 2 < of_nat k + 1\<close> have "\<lfloor>x2 + 1 / 2\<rfloor> = int k"
        by (intro floor_unique) simp_all
      then show ?thesis by simp
    qed
    with d [unfolded v_def] show ?thesis by (auto simp add: rt mv [unfolded v_def])
  next
    case False
    then have "1 \<le> r" by simp
    then have "(1::rat) \<le> of_nat r" by simp
    then have lo: "(1::rat) / of_nat (2 * t) \<le> of_nat r / of_nat (2 * t)"
      by (rule divide_right_mono) simp
    from r2 have "r + 1 \<le> 2 * t" by simp
    then have "(of_nat (r + 1) :: rat) \<le> of_nat (2 * t)" by (simp only: of_nat_le_iff)
    then have "(of_nat r :: rat) \<le> of_nat (2 * t) - 1" by simp
    then have "(of_nat r :: rat) / of_nat (2 * t) \<le> (of_nat (2 * t) - 1) / of_nat (2 * t)"
      by (rule divide_right_mono) simp
    also have "\<dots> = 1 - 1 / of_nat (2 * t)"
      using assms(1) by (simp add: field_simps)
    finally have hi: "(of_nat r :: rat) / of_nat (2 * t) \<le> 1 - 1 / of_nat (2 * t)" .
    from e t44 lo hi vk have "of_nat k \<le> x2 + 1 / 2" "x2 + 1 / 2 < of_nat k + 1"
      by linarith+
    then have "\<lfloor>x2 + 1 / 2\<rfloor> = int k"
      by (intro floor_unique) simp_all
    then show ?thesis by (simp add: rt mv [unfolded v_def])
  qed
qed

subsection \<open>Reading projects\<close>

lemma rows_of_map_result: "rows_of (map_result f r) = map f (rows_of r)"
  by (induction f r rule: map_result.induct) simp_all

text \<open>
  Claim C5, as amended. After a read of Projects, of one row or of many alike, every
  returned project carries a completion rate and a remaining budget. The rate is 0 for a
  project without tasks and otherwise \<open>Math.round\<close> of the product
  \<open>(completedTasks / totalTasks) * 100\<close> in JavaScript numbers; it lies between 0 and
  100, and for fewer than \<open>2\<^sup>3\<^sup>2\<close> tasks it is the exact quotient
  \<open>100 * completedTasks / totalTasks\<close> rounded to the nearest integer, except that it
  may be one less when the exact quotient lies halfway between two integers. The
  remaining budget is \<open>null\<close> when the budget is unset, and the budget minus the actual
  cost (a \<open>null\<close> cost counting as 0) when the budget is set and is not 0.
\<close>

theorem after_READ_Projects_derived:
  "rows_of (after_READ_Projects d projects) = map (derive_Project d) (rows_of projects)
   \<and> (\<forall>total completed.
        total = length (SELECT_Tasks_of d (Project.ID p))
        \<and> completed = count_DONE (SELECT_Tasks_of d (Project.ID p)) \<longrightarrow>
        (total = 0 \<longrightarrow> Project.completionRate (derive_Project d p) = Some 0)
        \<and> (0 < total \<longrightarrow>
             Project.completionRate (derive_Project d p) =
               Some (Math_round (js_times (js_divide (of_nat completed) (of_nat total)) 100)))
        \<and> (\<exists>r. Project.completionRate (derive_Project d p) = Some r \<and> 0 \<le> r \<and> r \<le> 100)
        \<and> (0 < total \<and> total < 2 ^ 32 \<longrightarrow>
             (\<exists>r. Project.completionRate (derive_Project d p) = Some r
                \<and> (r = Math_round (100 * of_nat completed / of_nat total)
                    \<or> 100 * of_nat completed / of_nat total + 1 / 2 =
                        rat_of_int (Math_round (100 * of_nat completed / of_nat total))
                      \<and> r = Math_round (100 * of_nat completed / of_nat total) - 1))))
   \<and> (Project.budget p = None \<longrightarrow> Project.remainingBudget (derive_Project d p) = None)
   \<and> (\<forall>b. Project.budget p = Some b \<and> b \<noteq> 0 \<longrightarrow>
        Project.remainingBudget (derive_Project d p) =
          Some (js_minus b (ToNumber (Project.actualCost p))))"
proof (intro conjI allI impI)
  show "rows_of (after_READ_Projects d projects) = map (derive_Project d) (rows_of projects)"
    by (simp add: after_READ_Projects_def rows_of_map_result)
next
  fix total completed
  assume h: "total = length (SELECT_Tasks_of d (Project.ID p))
        \<and> completed = count_DONE (SELECT_Tasks_of d (Project.ID p))"
  then have le: "completed \<le> total" by (simp add: count_DONE_def)
  have cr: "Project.completionRate (derive_Project d p) = Some (rate completed total)"
    using h by (simp add: derive_Project_def Let_def)
  show "Project.completionRate (derive_Project d p) = Some 0" if "total = 0"
    using that by (simp add: cr rate_def)
  show "Project.completionRate (derive_Project d p) =
      Some (Math_round (js_times (js_divide (of_nat completed) (of_nat total)) 100))"
    if "0 < total"
    using that by (simp add: cr rate_def)
  show "\<exists>r. Project.completionRate (derive_Project d p) = Some r \<and> 0 \<le> r \<and> r \<le> 100"
    using rate_range [OF le] by (simp add: cr)
  show "\<exists>r. Project.completionRate (derive_Project d p) = Some r
      \<and> (r = Math_round (100 * of_nat completed / of_nat total)
          \<or> 100 * of_nat completed / of_nat total + 1 / 2 =
              rat_of_int (Math_round (100 * of_nat completed / of_nat total))
            \<and> r = Math_round (100 * of_nat completed / of_nat total) - 1)"
    if "0 < total \<and> total < 2 ^ 32"
    using that rate_exact_or_tie [of total completed] le by (simp add: cr)
next
  assume "Project.budget p = None"
  then show "Project.remainingBudget (derive_Project d p) = None"
    by (simp add: derive_Project_def Let_def)
next
  fix b assume "Project.budget p = Some b \<and> b \<noteq> 0"
  then show "Project.remainingBudget (derive_Project d p) =
      Some (js_minus b (ToNumber (Project.actualCost p)))"
    by (simp add: derive_Project_def Let_def ToNumber_def)
qed


text \<open>
  The claim as it was stated fails for a project with a budget of 0, an actual cost of
  50 and 23 of 40 tasks done: the exact quotient 57.5 rounds to 58 and the budget minus
  the cost is -50, but the project is returned with a rate of 57 and no remaining budget.
\<close>

theorem after_READ_Projects_derived_counterexample:
  "length (SELECT_Tasks_of store_Q (Project.ID project_Q)) = 40
   \<and> count_DONE (SELECT_Tasks_of store_Q (Project.ID project_Q)) = 23
   \<and> Math_round (100 * 23 / 40) = 58
   \<and> Project.budget project_Q = Some 0
   \<and> Project.actualCost project_Q = Some 50
   \<and> after_READ_Projects store_Q (Many [project_Q]) =
       Many [project_Q\<lparr>Project.completionRate := Some 57, Project.remainingBudget := None\<rparr>]"
  by code_simp

theorem after_READ_Projects_derived_witness:
  "rows_of (after_READ_Projects store0 (Many [project_P, project_R])) =
     [derive_Project store0 project_P, derive_Project store0 project_R]
   \<and> Project.completionRate (derive_Project store0 project_P) = Some 50
   \<and> Project.remainingBudget (derive_Project store0 project_P) = Some 1000
   \<and> Project.completionRate (derive_Project store0 project_R) = Some 0
   \<and> Project.remainingBudget (derive_Project store0 project_R) = None"
proof -
  have p: "length (SELECT_Tasks_of store0 (Project.ID project_P)) = 2"
    "count_DONE (SELECT_Tasks_of store0 (Project.ID project_P)) = 1"
    "Project.budget project_P = Some 1000"
    "js_minus 1000 (ToNumber (Project.actualCost project_P)) = 1000"
    by code_simp+
  have r: "length (SELECT_Tasks_of store0 (Project.ID project_R)) = 0"
    "Project.budget project_R = None"
    by code_simp+
  have n: "Math_round (100 * 1 / 2) = 50" "(100::rat) * 1 / 2 + 1 / 2 \<noteq> 50"
    by code_simp+
  note P = after_READ_Projects_derived [of store0 "Many [project_P, project_R]" project_P]
  note R = after_READ_Projects_derived [of store0 "Many [project_P, project_R]" project_R]
  from P have 1: "rows_of (after_READ_Projects store0 (Many [project_P, project_R])) =
     [derive_Project store0 project_P, derive_Project store0 project_R]"
    by simp
  from P p n have 2: "Project.completionRate (derive_Project store0 project_P) = Some 50"
    by auto
  from P p have 3: "Project.remainingBudget (derive_Project store0 project_P) = Some 1000"
    by auto
  from R r have 4: "Project.completionRate (derive_Project store0 project_R) = Some 0"
    by auto
  from R r have 5: "Project.remainingBudget (derive_Project store0 project_R) = None"
    by auto
  from 1 2 3 4 5 show ?thesis by simp
qed

end
